theory Spec2Isabelle
  imports Main "HOL-Library.Product_Lexorder"
begin

section \<open>The tables\<close>

text \<open>
  The three tables of \<^verbatim>\<open>SQL/create_*.sql\<close>, with the columns the route handlers of
  \<^verbatim>\<open>routes/reservations.ts\<close> read or write. The primary keys \<^verbatim>\<open>id\<close> are named
  \<open>id_u\<close>, \<open>id_s\<close> and \<open>id_r\<close> (one record field per table). A \<^verbatim>\<open>DATE\<close> is held as
  the number of its day, counted from 1970-01-01, so that two spellings of one day are one
  value and the order is the order of the calendar; a \<^verbatim>\<open>TIME\<close> is held as the
  milliseconds since midnight. \<^verbatim>\<open>created_at\<close> is left out: no handler reads it.
\<close>

type_synonym date = int

datatype status = reserved | canceled

record user =
  id_u :: int
  first_name :: string
  last_name :: string

record seat =
  id_s :: int
  seat_name :: string

record reservation =
  id_r :: int
  user_id :: int
  seat_id :: int
  reserved_date :: date
  start_time :: int
  end_time :: int
  status :: status

record db =
  Users :: "user list"
  Seats :: "seat list"
  Reservations :: "reservation list"

section \<open>The driver: one transaction, calls that may throw\<close>

text \<open>
  Every \<^verbatim>\<open>await\<close> on the driver (\<^verbatim>\<open>transaction.begin()\<close>, a \<^verbatim>\<open>req.query(...)\<close>,
  \<^verbatim>\<open>commit()\<close>, \<^verbatim>\<open>rollback()\<close>) is one call. The calls of one request are numbered
  from 0 in the order they are made, and \<open>fails n\<close> says that call \<open>n\<close> throws. A call that
  throws has no effect on the data. A session holds the committed tables, the tables as
  the open transaction sees them, the number of calls made and the trace of calls and
  \<^verbatim>\<open>console.error\<close> lines. Only a \<^verbatim>\<open>commit()\<close> that returns changes the committed
  tables. The connection pool is taken as connected.

  The handlers hand dates over as the text of the request. What the driver makes of a
  text bound as \<^verbatim>\<open>sql.Date\<close> is not code of this repository: it is the parameter
  \<open>conv\<close> of every function that binds one, \<open>conv t = Some day\<close> when the text denotes
  that day and \<open>None\<close> when the driver rejects it, in which case the query throws.
\<close>

datatype call =
    Begin
  | Commit
  | Rollback
  | Select_reservation int
  | Select_user int
  | Select_seat int
  | Select_overlap int string int int "int option"
  | Insert_reservation int int string int int
  | Update_canceled int

datatype event = Done call | Threw call | Console_error string

record session =
  committed :: db
  working :: db
  calls :: nat
  trace :: "event list"

type_synonym 'a io = "session \<Rightarrow> 'a option \<times> session"

definition connect :: "db \<Rightarrow> session" where
  "connect d = \<lparr>committed = d, working = d, calls = 0, trace = []\<rparr>"

definition no_faults :: "nat \<Rightarrow> bool" where
  "no_faults n = False"

definition attempt ::
  "(nat \<Rightarrow> bool) \<Rightarrow> call \<Rightarrow> (session \<Rightarrow> 'a) \<Rightarrow> (session \<Rightarrow> session) \<Rightarrow> 'a io" where
  "attempt fails c result effect s =
     (if fails (calls s)
      then (None, s\<lparr>calls := Suc (calls s), trace := trace s @ [Threw c]\<rparr>)
      else (Some (result s),
            (effect s)\<lparr>calls := Suc (calls s), trace := trace s @ [Done c]\<rparr>))"

text \<open>\<^verbatim>\<open>const x = await m; f(x)\<close>: an exception of \<open>m\<close> skips \<open>f\<close>.\<close>

definition await :: "'a io \<Rightarrow> ('a \<Rightarrow> 'b io) \<Rightarrow> 'b io" where
  "await m f s = (case m s of (None, s') \<Rightarrow> (None, s') | (Some a, s') \<Rightarrow> f a s')"

definition respond :: "'a \<Rightarrow> 'a io" where
  "respond r s = (Some r, s)"

text \<open>A call that throws whatever \<open>fails\<close> says: the driver rejected a parameter.\<close>

definition throws :: "call \<Rightarrow> 'a io" where
  "throws c s = (None, s\<lparr>calls := Suc (calls s), trace := trace s @ [Threw c]\<rparr>)"

definition console_error :: "string \<Rightarrow> session \<Rightarrow> session" where
  "console_error msg s = s\<lparr>trace := trace s @ [Console_error msg]\<rparr>"

definition begin_txn :: "(nat \<Rightarrow> bool) \<Rightarrow> unit io" where
  "begin_txn fails = attempt fails Begin (\<lambda>s. ()) (\<lambda>s. s\<lparr>working := committed s\<rparr>)"

definition commit :: "(nat \<Rightarrow> bool) \<Rightarrow> unit io" where
  "commit fails = attempt fails Commit (\<lambda>s. ()) (\<lambda>s. s\<lparr>committed := working s\<rparr>)"

definition rollback :: "(nat \<Rightarrow> bool) \<Rightarrow> unit io" where
  "rollback fails = attempt fails Rollback (\<lambda>s. ()) (\<lambda>s. s\<lparr>working := committed s\<rparr>)"

section \<open>The queries\<close>

text \<open>\<^verbatim>\<open>SELECT * FROM Reservations WHERE id = @id AND status = 'reserved'\<close>\<close>

definition checkReservationExists :: "(nat \<Rightarrow> bool) \<Rightarrow> int \<Rightarrow> bool io" where
  "checkReservationExists fails i =
     attempt fails (Select_reservation i)
       (\<lambda>s. 0 < length (filter (\<lambda>r. id_r r = i \<and> status r = reserved)
                          (Reservations (working s))))
       (\<lambda>s. s)"

text \<open>\<^verbatim>\<open>SELECT id FROM Users WHERE id = @userId\<close>\<close>

definition checkUserExists :: "(nat \<Rightarrow> bool) \<Rightarrow> int \<Rightarrow> bool io" where
  "checkUserExists fails userId =
     attempt fails (Select_user userId)
       (\<lambda>s. 0 < length (filter (\<lambda>u. id_u u = userId) (Users (working s))))
       (\<lambda>s. s)"

text \<open>\<^verbatim>\<open>SELECT id FROM Seats WHERE id = @seatId\<close>\<close>

definition checkSeatExists :: "(nat \<Rightarrow> bool) \<Rightarrow> int \<Rightarrow> bool io" where
  "checkSeatExists fails seatId =
     attempt fails (Select_seat seatId)
       (\<lambda>s. 0 < length (filter (\<lambda>t. id_s t = seatId) (Seats (working s))))
       (\<lambda>s. s)"

text \<open>
  The \<^verbatim>\<open>WHERE\<close> clause of \<^verbatim>\<open>checkOverlap\<close>, on the day that \<^verbatim>\<open>@reservedDate\<close> was
  converted to; the last conjunct is the text \<^verbatim>\<open>AND id <> @excludeId\<close>, present when
  \<^verbatim>\<open>excludeId !== undefined\<close>.
\<close>

fun exclude_clause :: "int option \<Rightarrow> reservation \<Rightarrow> bool" where
  "exclude_clause None r = True"
| "exclude_clause (Some excludeId) r = (id_r r \<noteq> excludeId)"

definition overlap_where ::
  "int \<Rightarrow> date \<Rightarrow> int \<Rightarrow> int \<Rightarrow> int option \<Rightarrow> reservation \<Rightarrow> bool" where
  "overlap_where seatId reservedDate startTime endTime excludeId r =
     (seat_id r = seatId
      \<and> reserved_date r = reservedDate
      \<and> status r = reserved
      \<and> start_time r < endTime
      \<and> end_time r > startTime
      \<and> exclude_clause excludeId r)"

definition checkOverlap ::
  "(nat \<Rightarrow> bool) \<Rightarrow> (string \<Rightarrow> date option) \<Rightarrow> int \<Rightarrow> string \<Rightarrow> int \<Rightarrow> int
     \<Rightarrow> int option \<Rightarrow> bool io" where
  "checkOverlap fails conv seatId reservedDate startTime endTime excludeId =
     (case conv reservedDate of
        None \<Rightarrow> throws (Select_overlap seatId reservedDate startTime endTime excludeId)
      | Some day \<Rightarrow>
          attempt fails (Select_overlap seatId reservedDate startTime endTime excludeId)
            (\<lambda>s. 0 < length (filter (overlap_where seatId day startTime endTime excludeId)
                               (Reservations (working s))))
            (\<lambda>s. s))"

text \<open>
  \<^verbatim>\<open>INSERT INTO Reservations (...) OUTPUT INSERTED.* VALUES (..., 'reserved')\<close>. The key of
  the new row is the store's choice (\<^verbatim>\<open>IDENTITY\<close>); it is the argument \<open>new_id\<close>.
\<close>

definition inserted :: "int \<Rightarrow> int \<Rightarrow> int \<Rightarrow> date \<Rightarrow> int \<Rightarrow> int \<Rightarrow> reservation" where
  "inserted new_id userId seatId reservedDate startTime endTime =
     \<lparr>id_r = new_id, user_id = userId, seat_id = seatId, reserved_date = reservedDate,
      start_time = startTime, end_time = endTime, status = reserved\<rparr>"

definition insert_row :: "reservation \<Rightarrow> db \<Rightarrow> db" where
  "insert_row r d = d\<lparr>Reservations := Reservations d @ [r]\<rparr>"

definition createReservation ::
  "(nat \<Rightarrow> bool) \<Rightarrow> (string \<Rightarrow> date option) \<Rightarrow> int \<Rightarrow> int \<Rightarrow> int \<Rightarrow> string \<Rightarrow> int
     \<Rightarrow> int \<Rightarrow> reservation io" where
  "createReservation fails conv new_id userId seatId reservedDate startTime endTime =
     (case conv reservedDate of
        None \<Rightarrow> throws (Insert_reservation userId seatId reservedDate startTime endTime)
      | Some day \<Rightarrow>
          attempt fails (Insert_reservation userId seatId reservedDate startTime endTime)
            (\<lambda>s. inserted new_id userId seatId day startTime endTime)
            (\<lambda>s. s\<lparr>working :=
                      insert_row (inserted new_id userId seatId day startTime endTime)
                        (working s)\<rparr>))"

text \<open>\<^verbatim>\<open>UPDATE Reservations SET status = 'canceled' WHERE id = @id\<close>\<close>

definition set_canceled :: "int \<Rightarrow> db \<Rightarrow> db" where
  "set_canceled i d =
     d\<lparr>Reservations := map (\<lambda>r. if id_r r = i then r\<lparr>status := canceled\<rparr> else r)
                            (Reservations d)\<rparr>"

definition cancelReservation :: "(nat \<Rightarrow> bool) \<Rightarrow> int \<Rightarrow> unit io" where
  "cancelReservation fails i =
     attempt fails (Update_canceled i) (\<lambda>s. ())
       (\<lambda>s. s\<lparr>working := set_canceled i (working s)\<rparr>)"

section \<open>Values of the request\<close>

text \<open>
  \<open>jsnum\<close> is the value of \<^verbatim>\<open>Number(req.params.id)\<close> or \<^verbatim>\<open>Number(req.query.userId)\<close>;
  \<open>jsval\<close> is a field of the JSON body (\<open>JUndefined\<close>: the field is missing). Numbers
  with a fractional part are outside the model.
\<close>

datatype jsnum = NaN | Num int

datatype jsval = JUndefined | JNull | JBool bool | JNumber int | JString string | JObject

text \<open>
  One element of the array that GET answers with. The handler cuts the date and the two
  times out of \<^verbatim>\<open>toISOString()\<close>; here they stay as the columns hold them.
\<close>

record formatted =
  reservation_id :: int
  user_id_f :: int
  first_name_f :: string
  last_name_f :: string
  seat_id_f :: int
  seat_name_f :: string
  reserved_date_f :: date
  start_time_f :: int
  end_time_f :: int
  status_f :: status

datatype payload =
    Err string
  | Msg string
  | Msg_reservation string reservation
  | Rows "formatted list"

text \<open>
  What the handler leaves behind: a response with its status code, or \<open>Unhandled\<close> when
  the handler's promise rejects and the handler itself has sent nothing.
\<close>

datatype reply = Reply nat payload | Unhandled

text \<open>\<^verbatim>\<open>/^([01]\d|2[0-3]):[0-5]\d$/\<close>\<close>

definition is_digit :: "char \<Rightarrow> bool" where
  "is_digit c = (c \<in> set ''0123456789'')"

fun timeRegex_test :: "string \<Rightarrow> bool" where
  "timeRegex_test [h1, h2, c, m1, m2] =
     (((h1 \<in> set ''01'' \<and> is_digit h2) \<or> (h1 = CHR ''2'' \<and> h2 \<in> set ''0123''))
      \<and> c = CHR '':''
      \<and> m1 \<in> set ''012345'' \<and> is_digit m2)"
| "timeRegex_test t = False"

text \<open>
  \<^verbatim>\<open>toTime = (t) => new Date(`1970-01-01T${t}:00Z`)\<close>: the \<^verbatim>\<open>Date\<close> as its milliseconds
  since the epoch, \<open>None\<close> for an invalid \<^verbatim>\<open>Date\<close>. Both handlers call it only on strings
  that \<open>timeRegex_test\<close> accepted; on the others the model says invalid.
\<close>

definition digit_val :: "char \<Rightarrow> int" where
  "digit_val c = of_char c - 48"

fun toTime :: "string \<Rightarrow> int option" where
  "toTime [h1, h2, c, m1, m2] =
     (if timeRegex_test [h1, h2, c, m1, m2]
      then Some (((digit_val h1 * 10 + digit_val h2) * 60
                  + (digit_val m1 * 10 + digit_val m2)) * 60000)
      else None)"
| "toTime t = None"

text \<open>\<^verbatim>\<open>a >= b\<close> on two \<^verbatim>\<open>Date\<close>s: false when one of them is invalid.\<close>

fun date_ge :: "int option \<Rightarrow> int option \<Rightarrow> bool" where
  "date_ge (Some a) (Some b) = (a \<ge> b)"
| "date_ge a b = False"

text \<open>
  The five \<^verbatim>\<open>typeof\<close> tests on the fields of the body, with the values they let through.
\<close>

definition typed_fields ::
  "jsval \<Rightarrow> jsval \<Rightarrow> jsval \<Rightarrow> jsval \<Rightarrow> jsval
     \<Rightarrow> (int \<times> int \<times> string \<times> string \<times> string) option" where
  "typed_fields userId seatId reservedDate startTime endTime =
     (case userId of JNumber u \<Rightarrow>
        (case seatId of JNumber se \<Rightarrow>
           (case reservedDate of JString d \<Rightarrow>
              (case startTime of JString st \<Rightarrow>
                 (case endTime of JString en \<Rightarrow> Some (u, se, d, st, en)
                  | _ \<Rightarrow> None)
               | _ \<Rightarrow> None)
            | _ \<Rightarrow> None)
         | _ \<Rightarrow> None)
      | _ \<Rightarrow> None)"

section \<open>DELETE /api/reservations/:id\<close>

definition delete_try :: "(nat \<Rightarrow> bool) \<Rightarrow> int \<Rightarrow> reply io" where
  "delete_try fails reservationId =
     await (begin_txn fails) (\<lambda>_.
     await (checkReservationExists fails reservationId) (\<lambda>exists.
       if \<not> exists
       then await (rollback fails) (\<lambda>_.
              respond (Reply 404 (Err ''Reservation not found or already canceled'')))
       else await (cancelReservation fails reservationId) (\<lambda>_.
            await (commit fails) (\<lambda>_.
              respond (Reply 200 (Msg ''Reservation canceled''))))))"

text \<open>The \<^verbatim>\<open>catch\<close> block of the handler: its \<^verbatim>\<open>rollback()\<close> is not guarded.\<close>

definition delete_catch :: "(nat \<Rightarrow> bool) \<Rightarrow> session \<Rightarrow> reply \<times> session" where
  "delete_catch fails s =
     (case rollback fails (console_error ''Delete error:'' s) of
        (None, s') \<Rightarrow> (Unhandled, s')
      | (Some _, s') \<Rightarrow> (Reply 500 (Err ''Failed to cancel reservation''), s'))"

definition router_delete :: "(nat \<Rightarrow> bool) \<Rightarrow> db \<Rightarrow> jsnum \<Rightarrow> reply \<times> session" where
  "router_delete fails d param =
     (case param of
        NaN \<Rightarrow> (Reply 400 (Err ''Reservation ID required''), connect d)
      | Num reservationId \<Rightarrow>
          if reservationId = 0
          then (Reply 400 (Err ''Reservation ID required''), connect d)
          else (case delete_try fails reservationId (connect d) of
                  (Some r, s) \<Rightarrow> (r, s)
                | (None, s) \<Rightarrow> delete_catch fails s))"

section \<open>POST /api/reservations\<close>

definition post_try ::
  "(nat \<Rightarrow> bool) \<Rightarrow> (string \<Rightarrow> date option) \<Rightarrow> int \<Rightarrow> int \<Rightarrow> int \<Rightarrow> string \<Rightarrow> int
     \<Rightarrow> int \<Rightarrow> reply io" where
  "post_try fails conv new_id userId seatId reservedDate parsedStart parsedEnd =
     await (begin_txn fails) (\<lambda>_.
     await (checkUserExists fails userId) (\<lambda>user_found.
       if \<not> user_found
       then await (rollback fails) (\<lambda>_. respond (Reply 404 (Err ''User not found'')))
       else
     await (checkSeatExists fails seatId) (\<lambda>seat_found.
       if \<not> seat_found
       then await (rollback fails) (\<lambda>_. respond (Reply 404 (Err ''Seat not found'')))
       else
     await (checkOverlap fails conv seatId reservedDate parsedStart parsedEnd None)
       (\<lambda>overlap.
       if overlap
       then await (rollback fails) (\<lambda>_.
              respond (Reply 409 (Err ''Seat already reserved during that time'')))
       else
     await (createReservation fails conv new_id userId seatId reservedDate parsedStart
              parsedEnd)
       (\<lambda>newReservation.
     await (commit fails) (\<lambda>_.
       respond (Reply 201 (Msg_reservation ''Reservation created'' newReservation))))))))"

text \<open>
  The \<^verbatim>\<open>catch\<close> block of POST and PUT: \<^verbatim>\<open>console.error\<close>, then \<^verbatim>\<open>rollback()\<close> in a
  \<^verbatim>\<open>try\<close> of its own, then the 500.
\<close>

definition guarded_catch ::
  "(nat \<Rightarrow> bool) \<Rightarrow> string \<Rightarrow> string \<Rightarrow> session \<Rightarrow> reply \<times> session" where
  "guarded_catch fails label msg s =
     (case rollback fails (console_error label s) of
        (None, s') \<Rightarrow> (Reply 500 (Err msg), console_error ''Rollback failed:'' s')
      | (Some _, s') \<Rightarrow> (Reply 500 (Err msg), s'))"

definition router_post ::
  "(nat \<Rightarrow> bool) \<Rightarrow> (string \<Rightarrow> date option) \<Rightarrow> int \<Rightarrow> db \<Rightarrow> jsval \<Rightarrow> jsval \<Rightarrow> jsval
     \<Rightarrow> jsval \<Rightarrow> jsval \<Rightarrow> reply \<times> session" where
  "router_post fails conv new_id d userId seatId reservedDate startTime endTime =
     (case typed_fields userId seatId reservedDate startTime endTime of
        None \<Rightarrow> (Reply 400 (Err ''Missing or invalid parameters''), connect d)
      | Some (u, se, rd, st, en) \<Rightarrow>
          if \<not> timeRegex_test st \<or> \<not> timeRegex_test en
          then (Reply 400 (Err ''Missing or invalid parameters''), connect d)
          else if date_ge (toTime st) (toTime en)
          then (Reply 400 (Err ''startTime must be earlier than endTime''), connect d)
          else (case (toTime st, toTime en) of
                  (Some parsedStart, Some parsedEnd) \<Rightarrow>
                    (case post_try fails conv new_id u se rd parsedStart parsedEnd
                            (connect d) of
                       (Some r, s) \<Rightarrow> (r, s)
                     | (None, s) \<Rightarrow>
                         guarded_catch fails ''Reservation POST error:''
                           ''Reservation failed'' s)
                | _ \<Rightarrow> (Unhandled, connect d)))"

section \<open>PUT /api/reservations/:id\<close>

definition put_try ::
  "(nat \<Rightarrow> bool) \<Rightarrow> (string \<Rightarrow> date option) \<Rightarrow> int \<Rightarrow> int \<Rightarrow> int \<Rightarrow> int \<Rightarrow> string
     \<Rightarrow> int \<Rightarrow> int \<Rightarrow> reply io" where
  "put_try fails conv new_id reservationId userId seatId reservedDate parsedStart parsedEnd =
     await (begin_txn fails) (\<lambda>_.
     await (checkReservationExists fails reservationId) (\<lambda>exists.
       if \<not> exists
       then await (rollback fails) (\<lambda>_.
              respond (Reply 404 (Err ''Reservation not found or already canceled'')))
       else
     await (checkUserExists fails userId) (\<lambda>user_found.
       if \<not> user_found
       then await (rollback fails) (\<lambda>_. respond (Reply 404 (Err ''User not found'')))
       else
     await (checkSeatExists fails seatId) (\<lambda>seat_found.
       if \<not> seat_found
       then await (rollback fails) (\<lambda>_. respond (Reply 404 (Err ''Seat not found'')))
       else
     await (checkOverlap fails conv seatId reservedDate parsedStart parsedEnd
              (Some reservationId))
       (\<lambda>overlap.
       if overlap
       then await (rollback fails) (\<lambda>_.
              respond (Reply 409 (Err ''Seat already reserved during that time'')))
       else
     await (cancelReservation fails reservationId) (\<lambda>_.
     await (createReservation fails conv new_id userId seatId reservedDate parsedStart
              parsedEnd)
       (\<lambda>newReservation.
     await (commit fails) (\<lambda>_.
       respond (Reply 200 (Msg_reservation ''Reservation updated'' newReservation))))))))))"

definition router_put ::
  "(nat \<Rightarrow> bool) \<Rightarrow> (string \<Rightarrow> date option) \<Rightarrow> int \<Rightarrow> db \<Rightarrow> jsnum \<Rightarrow> jsval \<Rightarrow> jsval
     \<Rightarrow> jsval \<Rightarrow> jsval \<Rightarrow> jsval \<Rightarrow> reply \<times> session" where
  "router_put fails conv new_id d param userId seatId reservedDate startTime endTime =
     (case typed_fields userId seatId reservedDate startTime endTime of
        None \<Rightarrow> (Reply 400 (Err ''Missing or invalid parameters''), connect d)
      | Some (u, se, rd, st, en) \<Rightarrow>
          (case param of
             NaN \<Rightarrow> (Reply 400 (Err ''Missing or invalid parameters''), connect d)
           | Num reservationId \<Rightarrow>
               if reservationId = 0 \<or> \<not> timeRegex_test st \<or> \<not> timeRegex_test en
               then (Reply 400 (Err ''Missing or invalid parameters''), connect d)
               else if date_ge (toTime st) (toTime en)
               then (Reply 400 (Err ''startTime must be earlier than endTime''), connect d)
               else (case (toTime st, toTime en) of
                       (Some parsedStart, Some parsedEnd) \<Rightarrow>
                         (case put_try fails conv new_id reservationId u se rd parsedStart
                                 parsedEnd (connect d) of
                            (Some r, s) \<Rightarrow> (r, s)
                          | (None, s) \<Rightarrow>
                              guarded_catch fails
                                ''Transaction error during reservation update:''
                                ''Failed to update reservation'' s)
                     | _ \<Rightarrow> (Unhandled, connect d))))"

section \<open>GET /api/reservations\<close>

text \<open>
  The arguments are the handler's constants after its first lines: \<open>userId\<close> and
  \<open>seatId\<close> are \<open>None\<close> when the parameter is missing or empty and the value of
  \<^verbatim>\<open>Number(...)\<close> otherwise; \<open>fromDate\<close>, \<open>toDate\<close> and \<open>status_q\<close> are the raw
  strings; \<open>order_q\<close> is the raw \<^verbatim>\<open>req.query.order\<close>. Each function below is one
  \<^verbatim>\<open>if (x) { sqlQuery += ` AND ...` }\<close> of the handler: the condition it adds to the
  \<^verbatim>\<open>WHERE\<close> clause, or none when \<open>x\<close> is falsy.

  The handler binds \<open>fromDate\<close>, \<open>toDate\<close> and \<open>status\<close> without a type, as text. The
  server compares a \<^verbatim>\<open>DATE\<close> column with a text by converting the text to a date, and
  the \<open>status\<close> column with a text under the collation of the database. Neither is code
  of this repository: \<open>cast t\<close> is the day the server converts the text \<open>t\<close> to
  (\<open>None\<close>: the conversion fails and with it the query), and \<open>same a b\<close> says that the
  collation takes the texts \<open>a\<close> and \<open>b\<close> for equal.
\<close>

fun where_id :: "jsnum option \<Rightarrow> int \<Rightarrow> bool" where
  "where_id (Some (Num n)) col = (if n \<noteq> 0 then col = n else True)"
| "where_id x col = True"

text \<open>
  The text that \<^verbatim>\<open>if (x)\<close> lets through, and the day it is converted to when the clause
  is evaluated. \<open>conversion_fails\<close> says that a clause is added whose text does not convert.
\<close>

fun conversion_fails :: "(string \<Rightarrow> date option) \<Rightarrow> string option \<Rightarrow> bool" where
  "conversion_fails cast (Some t) = (t \<noteq> [] \<and> cast t = None)"
| "conversion_fails cast None = False"

fun where_fromDate :: "(string \<Rightarrow> date option) \<Rightarrow> string option \<Rightarrow> date \<Rightarrow> bool" where
  "where_fromDate cast (Some fromDate) col =
     (if fromDate \<noteq> []
      then (case cast fromDate of Some day \<Rightarrow> col \<ge> day | None \<Rightarrow> False)
      else True)"
| "where_fromDate cast None col = True"

fun where_toDate :: "(string \<Rightarrow> date option) \<Rightarrow> string option \<Rightarrow> date \<Rightarrow> bool" where
  "where_toDate cast (Some toDate) col =
     (if toDate \<noteq> []
      then (case cast toDate of Some day \<Rightarrow> col \<le> day | None \<Rightarrow> False)
      else True)"
| "where_toDate cast None col = True"

fun status_text :: "status \<Rightarrow> string" where
  "status_text reserved = ''reserved''"
| "status_text canceled = ''canceled''"

fun where_status :: "(string \<Rightarrow> string \<Rightarrow> bool) \<Rightarrow> string option \<Rightarrow> status \<Rightarrow> bool" where
  "where_status same (Some st) col = (if st \<noteq> [] then same (status_text col) st else True)"
| "where_status same None col = True"

definition list_where ::
  "(string \<Rightarrow> date option) \<Rightarrow> (string \<Rightarrow> string \<Rightarrow> bool) \<Rightarrow> jsnum option \<Rightarrow> string option
     \<Rightarrow> string option \<Rightarrow> jsnum option \<Rightarrow> string option \<Rightarrow> reservation \<Rightarrow> bool" where
  "list_where cast same userId fromDate toDate seatId status_q r =
     (where_id userId (user_id r)
      \<and> where_fromDate cast fromDate (reserved_date r)
      \<and> where_toDate cast toDate (reserved_date r)
      \<and> where_id seatId (seat_id r)
      \<and> where_status same status_q (status r))"

text \<open>\<^verbatim>\<open>FROM Reservations r JOIN Users u ON r.user_id = u.id JOIN Seats s ON r.seat_id = s.id\<close>\<close>

definition joined :: "db \<Rightarrow> (reservation \<times> user \<times> seat) list" where
  "joined d =
     concat (map (\<lambda>r.
       concat (map (\<lambda>u.
         map (\<lambda>s. (r, u, s)) (filter (\<lambda>s. seat_id r = id_s s) (Seats d)))
         (filter (\<lambda>u. user_id r = id_u u) (Users d))))
       (Reservations d))"

definition format_row :: "reservation \<times> user \<times> seat \<Rightarrow> formatted" where
  "format_row x =
     (case x of (r, u, s) \<Rightarrow>
        \<lparr>reservation_id = id_r r, user_id_f = user_id r, first_name_f = first_name u,
         last_name_f = last_name u, seat_id_f = seat_id r, seat_name_f = seat_name s,
         reserved_date_f = reserved_date r, start_time_f = start_time r,
         end_time_f = end_time r, status_f = status r\<rparr>)"

text \<open>\<^verbatim>\<open>ORDER BY r.reserved_date DESC, r.start_time DESC\<close>, when \<^verbatim>\<open>order === "true"\<close>.\<close>

definition order_by ::
  "string option \<Rightarrow> (reservation \<times> user \<times> seat) list \<Rightarrow> (reservation \<times> user \<times> seat) list" where
  "order_by order_q xs =
     (if order_q = Some ''true''
      then rev (sort_key (\<lambda>x. (reserved_date (fst x), start_time (fst x))) xs)
      else xs)"

text \<open>
  The handler reads through the pool, outside any transaction: one call, which throws
  when \<open>fails 0\<close> or when the text of a date clause does not convert.
\<close>

definition router_get ::
  "(nat \<Rightarrow> bool) \<Rightarrow> (string \<Rightarrow> date option) \<Rightarrow> (string \<Rightarrow> string \<Rightarrow> bool) \<Rightarrow> db
     \<Rightarrow> jsnum option \<Rightarrow> string option \<Rightarrow> string option \<Rightarrow> jsnum option \<Rightarrow> string option
     \<Rightarrow> string option \<Rightarrow> reply" where
  "router_get fails cast same d userId fromDate toDate seatId status_q order_q =
     (if fails 0 \<or> conversion_fails cast fromDate \<or> conversion_fails cast toDate
      then Reply 500 (Err ''DB error'')
      else Reply 200 (Rows (map format_row
             (order_by order_q
                (filter (\<lambda>x. list_where cast same userId fromDate toDate seatId status_q
                              (fst x))
                   (joined d))))))"

section \<open>A server answering one request after another\<close>

datatype request =
    Create jsval jsval jsval jsval jsval
  | Cancel jsnum
  | Rebook jsnum jsval jsval jsval jsval jsval

text \<open>The committed tables after one request; \<open>new_id\<close> is the key the store would assign.\<close>

fun serve :: "(nat \<Rightarrow> bool) \<Rightarrow> (string \<Rightarrow> date option) \<Rightarrow> int \<Rightarrow> db \<Rightarrow> request \<Rightarrow> db" where
  "serve fails conv new_id d (Create u se rd st en) =
     committed (snd (router_post fails conv new_id d u se rd st en))"
| "serve fails conv new_id d (Cancel p) =
     committed (snd (router_delete fails d p))"
| "serve fails conv new_id d (Rebook p u se rd st en) =
     committed (snd (router_put fails conv new_id d p u se rd st en))"

fun run ::
  "(string \<Rightarrow> date option) \<Rightarrow> db \<Rightarrow> ((nat \<Rightarrow> bool) \<times> int \<times> request) list \<Rightarrow> db" where
  "run conv d [] = d"
| "run conv d ((fails, new_id, rq) # rest) = run conv (serve fails conv new_id d rq) rest"

section \<open>Example data\<close>

text \<open>
  User 1 and seat 10 of the seed scripts, and the reservation of the handler's own usage
  comment: seat 10 on 2025-07-15 (day 20284) from 14:00 to 15:00; a second reservation of
  the seat on that day from 16:00 to 17:00.
\<close>

definition user1 :: user where
  "user1 = \<lparr>id_u = 1, first_name = ''Taro'', last_name = ''Tanaka''\<rparr>"

definition seat10 :: seat where
  "seat10 = \<lparr>id_s = 10, seat_name = ''B-3''\<rparr>"

definition booking_A :: reservation where
  "booking_A = \<lparr>id_r = 1, user_id = 1, seat_id = 10, reserved_date = 20284,
                start_time = 50400000, end_time = 54000000, status = reserved\<rparr>"

definition booking_B :: reservation where
  "booking_B = \<lparr>id_r = 2, user_id = 1, seat_id = 10, reserved_date = 20284,
                start_time = 57600000, end_time = 61200000, status = reserved\<rparr>"

definition db_0 :: db where
  "db_0 = \<lparr>Users = [user1], Seats = [seat10], Reservations = []\<rparr>"

definition db_A :: db where
  "db_A = \<lparr>Users = [user1], Seats = [seat10], Reservations = [booking_A]\<rparr>"

definition db_AB :: db where
  "db_AB = \<lparr>Users = [user1], Seats = [seat10], Reservations = [booking_A, booking_B]\<rparr>"

text \<open>
  Conversions for the examples, on the texts the examples use: 2025-07-15 is day 20284,
  and so is the same day written \<^verbatim>\<open>2025-7-15\<close>; \<^verbatim>\<open>20250701\<close> is a spelling of
  2025-07-01 that the server converts. Every other text is rejected. The collation of
  the examples takes equal texts for equal.
\<close>

definition conv_ex :: "string \<Rightarrow> date option" where
  "conv_ex = map_of [(''2025-07-15'', 20284), (''2025-7-15'', 20284)]"

definition cast_ex :: "string \<Rightarrow> date option" where
  "cast_ex = map_of [(''2025-07-01'', 20270), (''20250701'', 20270), (''2025-07-16'', 20285),
                     (''2025-07-31'', 20300)]"

definition same_ex :: "string \<Rightarrow> string \<Rightarrow> bool" where
  "same_ex a b = (a = b)"

text \<open>Every row of the reservations table starts before it ends.\<close>

abbreviation start_before_end :: "db \<Rightarrow> bool" where
  "start_before_end d \<equiv> \<forall>r\<in>set (Reservations d). start_time r < end_time r"

section \<open>Shared facts\<close>

lemmas driver_defs = attempt_def throws_def await_def respond_def console_error_def begin_txn_def
  commit_def rollback_def checkReservationExists_def checkUserExists_def checkSeatExists_def
  checkOverlap_def createReservation_def cancelReservation_def connect_def

lemmas example_defs = user1_def seat10_def booking_A_def booking_B_def db_0_def db_A_def
  db_AB_def conv_ex_def cast_ex_def same_ex_def

lemma exists_conv: "(filter P xs \<noteq> []) = (\<exists>x\<in>set xs. P x)"
  by (simp add: filter_empty_conv)

lemma toTime_Some_regex: "toTime t = Some ms \<Longrightarrow> timeRegex_test t"
  by (cases t rule: toTime.cases) (auto split: if_splits)

lemma regex_toTime: "timeRegex_test t \<Longrightarrow> \<exists>ms. toTime t = Some ms"
  by (cases t rule: toTime.cases) auto

lemma toTime_examples:
  "toTime ''14:00'' = Some 50400000"
  "toTime ''15:00'' = Some 54000000"
  "toTime ''14:30'' = Some 52200000"
  "toTime ''15:30'' = Some 55800000"
  "toTime ''16:00'' = Some 57600000"
  "toTime ''17:00'' = Some 61200000"
  by (simp_all add: is_digit_def digit_val_def)

subsection \<open>What a transaction can leave committed\<close>

lemma post_try_committed:
  "committed (snd (post_try fails conv new_id u se rd ps pe (connect d))) = d
   \<or> (\<exists>day. committed (snd (post_try fails conv new_id u se rd ps pe (connect d)))
              = insert_row (inserted new_id u se day ps pe) d)"
proof (cases "conv rd")
  case None
  then show ?thesis
    unfolding post_try_def driver_defs by (simp split: if_splits)
next
  case (Some day)
  then have "committed (snd (post_try fails conv new_id u se rd ps pe (connect d))) = d
   \<or> committed (snd (post_try fails conv new_id u se rd ps pe (connect d)))
      = insert_row (inserted new_id u se day ps pe) d"
    unfolding post_try_def driver_defs by (simp split: if_splits)
  then show ?thesis by blast
qed

lemma delete_try_committed:
  "committed (snd (delete_try fails n (connect d))) = d
   \<or> committed (snd (delete_try fails n (connect d))) = set_canceled n d"
  unfolding delete_try_def driver_defs
  by (simp split: if_splits)

lemma put_try_committed:
  "conv rd = Some day \<Longrightarrow>
   (fst (put_try fails conv new_id n u se rd ps pe (connect d))
      = Some (Reply 200 (Msg_reservation ''Reservation updated'' (inserted new_id u se day ps pe)))
    \<and> committed (snd (put_try fails conv new_id n u se rd ps pe (connect d)))
      = insert_row (inserted new_id u se day ps pe) (set_canceled n d))
   \<or> (fst (put_try fails conv new_id n u se rd ps pe (connect d))
      \<noteq> Some (Reply 200 (Msg_reservation ''Reservation updated'' (inserted new_id u se day ps pe)))
    \<and> committed (snd (put_try fails conv new_id n u se rd ps pe (connect d))) = d)"
  unfolding put_try_def driver_defs
  by (simp split: if_splits)

text \<open>A date that the driver rejects stops the rebook at the overlap check.\<close>

lemma put_try_rejected_date:
  "conv rd = None \<Longrightarrow>
   committed (snd (put_try fails conv new_id n u se rd ps pe (connect d))) = d
   \<and> fst (put_try fails conv new_id n u se rd ps pe (connect d))
       \<noteq> Some (Reply 200 (Msg_reservation ''Reservation updated'' new))
   \<and> Done (Update_canceled n)
       \<notin> set (trace (snd (put_try fails conv new_id n u se rd ps pe (connect d))))"
  unfolding put_try_def driver_defs
  by (simp split: if_splits)

lemma put_try_insert_after_update:
  "Done (Insert_reservation u se rd ps pe)
     \<in> set (trace (snd (put_try fails conv new_id n u se rd ps pe (connect d)))) \<Longrightarrow>
   take 7 (trace (snd (put_try fails conv new_id n u se rd ps pe (connect d))))
   = [Done Begin, Done (Select_reservation n), Done (Select_user u),
      Done (Select_seat se), Done (Select_overlap se rd ps pe (Some n)),
      Done (Update_canceled n), Done (Insert_reservation u se rd ps pe)]"
  unfolding put_try_def driver_defs
  by (cases "conv rd") (simp_all split: if_splits)

lemma put_try_throws_after_update:
  "conv rd = Some day \<Longrightarrow>
   Done (Update_canceled n)
     \<in> set (trace (snd (put_try fails conv new_id n u se rd ps pe (connect d)))) \<Longrightarrow>
   fst (put_try fails conv new_id n u se rd ps pe (connect d))
     \<noteq> Some (Reply 200 (Msg_reservation ''Reservation updated'' (inserted new_id u se day ps pe))) \<Longrightarrow>
   fst (put_try fails conv new_id n u se rd ps pe (connect d)) = None"
  unfolding put_try_def driver_defs
  by (simp split: if_splits)

lemma guarded_catch_reply: "fst (guarded_catch fails l m s) = Reply 500 (Err m)"
  unfolding guarded_catch_def driver_defs by simp

lemma guarded_catch_committed: "committed (snd (guarded_catch fails l m s)) = committed s"
  unfolding guarded_catch_def driver_defs by simp

lemma guarded_catch_trace:
  "trace (snd (guarded_catch fails l m s)) = trace s @ [Console_error l, Done Rollback]
   \<or> trace (snd (guarded_catch fails l m s))
      = trace s @ [Console_error l, Threw Rollback, Console_error ''Rollback failed:'']"
  unfolding guarded_catch_def driver_defs by simp

lemma delete_catch_committed: "committed (snd (delete_catch fails s)) = committed s"
  unfolding delete_catch_def driver_defs by simp

lemma router_put_unfold:
  assumes "toTime st = Some ps" and "toTime en = Some pe"
  shows "router_put fails conv new_id d (Num n) (JNumber u) (JNumber se) (JString rd)
           (JString st) (JString en)
         = (if n = 0 then (Reply 400 (Err ''Missing or invalid parameters''), connect d)
            else if ps \<ge> pe
            then (Reply 400 (Err ''startTime must be earlier than endTime''), connect d)
            else (case put_try fails conv new_id n u se rd ps pe (connect d) of
                    (Some r, s) \<Rightarrow> (r, s)
                  | (None, s) \<Rightarrow>
                      guarded_catch fails ''Transaction error during reservation update:''
                        ''Failed to update reservation'' s))"
  using assms toTime_Some_regex [OF assms(1)] toTime_Some_regex [OF assms(2)]
  by (simp add: router_put_def typed_fields_def)

lemma router_post_committed:
  "committed (snd (router_post fails conv new_id d u se rd st en)) = d
   \<or> (\<exists>uu ss day ps pe. ps < pe
        \<and> committed (snd (router_post fails conv new_id d u se rd st en))
          = insert_row (inserted new_id uu ss day ps pe) d)"
proof (cases "typed_fields u se rd st en")
  case None
  then show ?thesis by (simp add: router_post_def connect_def)
next
  case (Some f)
  obtain uu ss rdd stt enn where f: "f = (uu, ss, rdd, stt, enn)" by (cases f) auto
  show ?thesis
  proof (cases "timeRegex_test stt \<and> timeRegex_test enn \<and> \<not> date_ge (toTime stt) (toTime enn)")
    case False
    then show ?thesis using Some f by (auto simp: router_post_def connect_def)
  next
    case True
    then obtain ps pe where t: "toTime stt = Some ps" "toTime enn = Some pe"
      using regex_toTime by blast
    then have lt: "ps < pe" using True by simp
    define T where "T = post_try fails conv new_id uu ss rdd ps pe (connect d)"
    have o: "router_post fails conv new_id d u se rd st en
          = (case T of (Some r, s) \<Rightarrow> (r, s)
             | (None, s) \<Rightarrow> guarded_catch fails ''Reservation POST error:''
                             ''Reservation failed'' s)"
      using Some f True t lt by (simp add: router_post_def T_def)
    have c: "committed (snd (router_post fails conv new_id d u se rd st en)) = committed (snd T)"
      unfolding o by (cases T; cases "fst T") (auto simp: guarded_catch_committed)
    have "committed (snd T) = d
          \<or> (\<exists>day. committed (snd T) = insert_row (inserted new_id uu ss day ps pe) d)"
      unfolding T_def by (rule post_try_committed)
    then show ?thesis
    proof
      assume "committed (snd T) = d"
      then show ?thesis using c by simp
    next
      assume "\<exists>day. committed (snd T) = insert_row (inserted new_id uu ss day ps pe) d"
      then obtain day where "committed (snd T) = insert_row (inserted new_id uu ss day ps pe) d"
        by blast
      then have "ps < pe \<and> committed (snd (router_post fails conv new_id d u se rd st en))
              = insert_row (inserted new_id uu ss day ps pe) d"
        using c lt by simp
      then show ?thesis by blast
    qed
  qed
qed

lemma router_put_committed:
  "committed (snd (router_put fails conv new_id d p u se rd st en)) = d
   \<or> (\<exists>n uu ss day ps pe. ps < pe
        \<and> committed (snd (router_put fails conv new_id d p u se rd st en))
          = insert_row (inserted new_id uu ss day ps pe) (set_canceled n d))"
proof (cases "typed_fields u se rd st en")
  case None
  then show ?thesis by (simp add: router_put_def connect_def)
next
  case (Some f)
  obtain uu ss rdd stt enn where f: "f = (uu, ss, rdd, stt, enn)" by (cases f) auto
  show ?thesis
  proof (cases "\<exists>n. p = Num n \<and> n \<noteq> 0 \<and> timeRegex_test stt \<and> timeRegex_test enn
                  \<and> \<not> date_ge (toTime stt) (toTime enn)")
    case False
    then show ?thesis using Some f
      by (auto simp: router_put_def connect_def split: jsnum.splits)
  next
    case True
    then obtain n where n: "p = Num n" "n \<noteq> 0"
      and rx: "timeRegex_test stt" "timeRegex_test enn"
      and ge: "\<not> date_ge (toTime stt) (toTime enn)" by blast
    obtain ps pe where t: "toTime stt = Some ps" "toTime enn = Some pe"
      using rx regex_toTime by blast
    then have lt: "ps < pe" using ge by simp
    define T where "T = put_try fails conv new_id n uu ss rdd ps pe (connect d)"
    have o: "router_put fails conv new_id d p u se rd st en
          = (case T of (Some r, s) \<Rightarrow> (r, s)
             | (None, s) \<Rightarrow> guarded_catch fails
                                ''Transaction error during reservation update:''
                                ''Failed to update reservation'' s)"
      using Some f n rx t lt by (simp add: router_put_def T_def)
    have c: "committed (snd (router_put fails conv new_id d p u se rd st en)) = committed (snd T)"
      unfolding o by (cases T; cases "fst T") (auto simp: guarded_catch_committed)
    show ?thesis
    proof (cases "conv rdd")
      case None
      then have "committed (snd T) = d"
        unfolding T_def
        using put_try_rejected_date [where conv = conv and rd = rdd and fails = fails
            and new_id = new_id and n = n and u = uu and se = ss and ps = ps and pe = pe
            and d = d]
        by blast
      then show ?thesis using c by simp
    next
      case (Some day)
      then have "committed (snd T) = d
          \<or> committed (snd T) = insert_row (inserted new_id uu ss day ps pe) (set_canceled n d)"
        unfolding T_def using put_try_committed [where conv = conv and rd = rdd and day = day
            and fails = fails and new_id = new_id and n = n and u = uu and se = ss
            and ps = ps and pe = pe and d = d]
        by blast
      then show ?thesis
      proof
        assume "committed (snd T) = d"
        then show ?thesis using c by simp
      next
        assume "committed (snd T)
                = insert_row (inserted new_id uu ss day ps pe) (set_canceled n d)"
        then have "ps < pe \<and> committed (snd (router_put fails conv new_id d p u se rd st en))
                = insert_row (inserted new_id uu ss day ps pe) (set_canceled n d)"
          using c lt by simp
        then show ?thesis by blast
      qed
    qed
  qed
qed

lemma router_delete_committed:
  "committed (snd (router_delete fails d p)) = d
   \<or> (\<exists>n. committed (snd (router_delete fails d p)) = set_canceled n d)"
proof (cases "\<exists>n. p = Num n \<and> n \<noteq> 0")
  case False
  then show ?thesis by (auto simp: router_delete_def connect_def split: jsnum.splits)
next
  case True
  then obtain n where n: "p = Num n" "n \<noteq> 0" by blast
  define T where "T = delete_try fails n (connect d)"
  have o: "router_delete fails d p
          = (case T of (Some r, s) \<Rightarrow> (r, s) | (None, s) \<Rightarrow> delete_catch fails s)"
    using n by (simp add: router_delete_def T_def)
  have c: "committed (snd (router_delete fails d p)) = committed (snd T)"
    unfolding o by (cases T; cases "fst T") (auto simp: delete_catch_committed)
  have "committed (snd T) = d \<or> committed (snd T) = set_canceled n d"
    unfolding T_def by (rule delete_try_committed)
  then show ?thesis using c by auto
qed

lemma start_before_end_insert:
  "start_before_end d \<Longrightarrow> ps < pe \<Longrightarrow>
   start_before_end (insert_row (inserted new_id u se day ps pe) d)"
  by (auto simp: insert_row_def inserted_def)

lemma start_before_end_canceled:
  "start_before_end d \<Longrightarrow> start_before_end (set_canceled n d)"
  by (auto simp: set_canceled_def)

lemma serve_start_before_end:
  assumes "start_before_end d"
  shows "start_before_end (serve fails conv new_id d rq)"
proof (cases rq)
  case (Create u se rd st en)
  show ?thesis
    using router_post_committed [of fails conv new_id d u se rd st en] assms
    unfolding Create serve.simps
    by (metis start_before_end_insert)
next
  case (Cancel p)
  show ?thesis
    using router_delete_committed [of fails d p] assms
    unfolding Cancel serve.simps
    by (metis start_before_end_canceled)
next
  case (Rebook p u se rd st en)
  show ?thesis
    using router_put_committed [of fails conv new_id d p u se rd st en] assms
    unfolding Rebook serve.simps
    by (metis start_before_end_insert start_before_end_canceled)
qed

lemma run_start_before_end:
  "start_before_end d \<Longrightarrow> start_before_end (run conv d reqs)"
proof (induction reqs arbitrary: d)
  case Nil
  then show ?case by simp
next
  case (Cons a reqs)
  obtain fails new_id rq where a: "a = (fails, new_id, rq)" by (cases a) auto
  show ?case
    unfolding a run.simps
    by (rule Cons.IH) (rule serve_start_before_end [OF Cons.prems])
qed

subsection \<open>POST and PUT always answer\<close>

text \<open>
  Their \<^verbatim>\<open>catch\<close> block guards its own \<^verbatim>\<open>rollback()\<close>: whatever throws, the caller gets
  a response, and a rollback that throws too is logged and leaves the 500 in place.
\<close>

lemma post_try_replies:
  "fst (post_try fails conv new_id u se rd ps pe s) = Some r \<Longrightarrow> r \<noteq> Unhandled"
  unfolding post_try_def driver_defs
  by (cases "conv rd") (auto split: if_splits)

lemma put_try_replies:
  "fst (put_try fails conv new_id n u se rd ps pe s) = Some r \<Longrightarrow> r \<noteq> Unhandled"
  unfolding put_try_def driver_defs
  by (cases "conv rd") (auto split: if_splits)

lemma router_post_always_replies:
  "fst (router_post fails conv new_id d u se rd st en) \<noteq> Unhandled"
proof (cases "typed_fields u se rd st en")
  case None
  then show ?thesis by (simp add: router_post_def)
next
  case (Some f)
  obtain uu ss rdd stt enn where f: "f = (uu, ss, rdd, stt, enn)" by (cases f) auto
  show ?thesis
  proof (cases "timeRegex_test stt \<and> timeRegex_test enn \<and> \<not> date_ge (toTime stt) (toTime enn)")
    case False
    then show ?thesis using Some f by (auto simp: router_post_def)
  next
    case True
    then obtain ps pe where t: "toTime stt = Some ps" "toTime enn = Some pe"
      using regex_toTime by blast
    define T where "T = post_try fails conv new_id uu ss rdd ps pe (connect d)"
    have o: "router_post fails conv new_id d u se rd st en
          = (case T of (Some r, s) \<Rightarrow> (r, s)
             | (None, s) \<Rightarrow> guarded_catch fails ''Reservation POST error:''
                             ''Reservation failed'' s)"
      using Some f True t by (simp add: router_post_def T_def)
    show ?thesis
    proof (cases "fst T")
      case None
      then show ?thesis unfolding o by (cases T) (simp add: guarded_catch_reply)
    next
      case (Some r)
      then have "r \<noteq> Unhandled" unfolding T_def by (rule post_try_replies)
      then show ?thesis unfolding o using Some by (cases T) simp
    qed
  qed
qed

lemma router_put_always_replies:
  "fst (router_put fails conv new_id d p u se rd st en) \<noteq> Unhandled"
proof (cases "typed_fields u se rd st en")
  case None
  then show ?thesis by (simp add: router_put_def)
next
  case (Some f)
  obtain uu ss rdd stt enn where f: "f = (uu, ss, rdd, stt, enn)" by (cases f) auto
  show ?thesis
  proof (cases "\<exists>n. p = Num n \<and> n \<noteq> 0 \<and> timeRegex_test stt \<and> timeRegex_test enn
                  \<and> \<not> date_ge (toTime stt) (toTime enn)")
    case False
    then show ?thesis using Some f
      by (auto simp: router_put_def split: jsnum.splits)
  next
    case True
    then obtain n where n: "p = Num n" "n \<noteq> 0"
      and rx: "timeRegex_test stt" "timeRegex_test enn"
      and ge: "\<not> date_ge (toTime stt) (toTime enn)" by blast
    obtain ps pe where t: "toTime stt = Some ps" "toTime enn = Some pe"
      using rx regex_toTime by blast
    define T where "T = put_try fails conv new_id n uu ss rdd ps pe (connect d)"
    have o: "router_put fails conv new_id d p u se rd st en
          = (case T of (Some r, s) \<Rightarrow> (r, s)
             | (None, s) \<Rightarrow> guarded_catch fails
                                ''Transaction error during reservation update:''
                                ''Failed to update reservation'' s)"
      using Some f n rx t ge by (simp add: router_put_def T_def)
    show ?thesis
    proof (cases "fst T")
      case None
      then show ?thesis unfolding o by (cases T) (simp add: guarded_catch_reply)
    next
      case (Some r)
      then have "r \<noteq> Unhandled" unfolding T_def by (rule put_try_replies)
      then show ?thesis unfolding o using Some by (cases T) simp
    qed
  qed
qed

lemma router_post_guarded_rollback:
  "router_post (\<lambda>k. k = 1 \<or> k = 2) conv_ex 2 db_A (JNumber 1) (JNumber 10)
     (JString ''2025-07-15'') (JString ''16:00'') (JString ''17:00'')
   = (Reply 500 (Err ''Reservation failed''),
      \<lparr>committed = db_A, working = db_A, calls = 3,
       trace = [Done Begin, Threw (Select_user 1), Console_error ''Reservation POST error:'',
                Threw Rollback, Console_error ''Rollback failed:'']\<rparr>)"
  using toTime_examples(5,6)
  unfolding router_post_def typed_fields_def post_try_def guarded_catch_def driver_defs
  by (simp add: is_digit_def)

subsection \<open>Two spellings of one day\<close>

text \<open>
  The request may spell the day in any way the driver converts. A booking that overlaps
  reservation 1 is refused also when it writes the day as \<^verbatim>\<open>2025-7-15\<close>, and so is a
  rebook of reservation 1 onto the slot of reservation 2.
\<close>

lemma router_post_other_spelling_conflict:
  "fst (router_post no_faults conv_ex 2 db_A (JNumber 1) (JNumber 10)
     (JString ''2025-7-15'') (JString ''14:30'') (JString ''15:30''))
   = Reply 409 (Err ''Seat already reserved during that time'')"
  using toTime_examples(3,4)
  unfolding router_post_def typed_fields_def post_try_def driver_defs no_faults_def
  by (simp add: is_digit_def overlap_where_def example_defs)

lemma router_put_other_spelling_conflict:
  "fst (router_put no_faults conv_ex 3 db_AB (Num 1) (JNumber 1) (JNumber 10)
     (JString ''2025-7-15'') (JString ''16:00'') (JString ''17:00''))
   = Reply 409 (Err ''Seat already reserved during that time'')"
  using toTime_examples(5,6)
  unfolding router_put_def typed_fields_def put_try_def driver_defs no_faults_def
  by (simp add: is_digit_def overlap_where_def example_defs)

subsection \<open>The rows GET selects\<close>

lemma set_joined:
  "set (joined d) = {(r, u, s). r \<in> set (Reservations d) \<and> u \<in> set (Users d)
                       \<and> s \<in> set (Seats d) \<and> user_id r = id_u u \<and> seat_id r = id_s s}"
  by (auto simp: joined_def)

lemma set_order_by: "set (order_by order_q xs) = set xs"
  by (simp add: order_by_def)

lemma where_id_iff: "where_id v col = (\<forall>n. v = Some (Num n) \<and> n \<noteq> 0 \<longrightarrow> col = n)"
  by (cases "(v, col)" rule: where_id.cases) auto

lemma where_fromDate_iff:
  "\<not> conversion_fails cast v \<Longrightarrow>
   where_fromDate cast v col
   = (\<forall>f day. v = Some f \<and> f \<noteq> [] \<and> cast f = Some day \<longrightarrow> day \<le> col)"
  by (cases v) (auto split: option.splits)

lemma where_toDate_iff:
  "\<not> conversion_fails cast v \<Longrightarrow>
   where_toDate cast v col
   = (\<forall>t day. v = Some t \<and> t \<noteq> [] \<and> cast t = Some day \<longrightarrow> col \<le> day)"
  by (cases v) (auto split: option.splits)

lemma where_status_iff:
  "where_status same v col
   = (\<forall>st. v = Some st \<and> st \<noteq> [] \<longrightarrow> same (status_text col) st)"
  by (cases v) auto

section \<open>The claims\<close>

text \<open>
  Claim C2. For a date that the driver converts, and without faults, the overlap check of
  the create path answers true exactly when some \<open>reserved\<close> row of that seat and day
  has \<open>start_time < endTime\<close> and \<open>startTime < end_time\<close>. On a table holding the single
  reserved interval \<open>(s1, e1)\<close> of that seat and day, a request \<open>(s2, e2)\<close> is flagged
  iff \<open>s1 < e2 \<and> s2 < e1\<close>, and a request that starts where the row ends (\<open>s2 = e1\<close>) is
  not flagged.
\<close>

theorem checkOverlap_flags_iff:
  assumes "conv rd = Some day"
  shows "fst (checkOverlap no_faults conv seatId rd s2 e2 None (connect d))
     = Some (\<exists>r\<in>set (Reservations d). seat_id r = seatId \<and> reserved_date r = day
               \<and> status r = reserved \<and> start_time r < e2 \<and> s2 < end_time r)
   \<and> fst (checkOverlap no_faults conv seatId rd s2 e2 None
        (connect \<lparr>Users = us, Seats = ss, Reservations =
           [\<lparr>id_r = i, user_id = u, seat_id = seatId, reserved_date = day,
             start_time = s1, end_time = e1, status = reserved\<rparr>]\<rparr>))
     = Some (s1 < e2 \<and> s2 < e1)
   \<and> fst (checkOverlap no_faults conv seatId rd e1 e2 None
        (connect \<lparr>Users = us, Seats = ss, Reservations =
           [\<lparr>id_r = i, user_id = u, seat_id = seatId, reserved_date = day,
             start_time = s1, end_time = e1, status = reserved\<rparr>]\<rparr>))
     = Some False"
  using assms
  by (auto simp: checkOverlap_def attempt_def connect_def no_faults_def overlap_where_def
        exists_conv)

text \<open>
  At 14:00--15:00 stored for day 20284, and the request writing that day as
  \<^verbatim>\<open>2025-7-15\<close>: 14:30--16:00 is flagged, 15:00--16:00 is not.
\<close>

theorem checkOverlap_flags_iff_witness:
  "conv_ex ''2025-7-15'' = Some 20284
   \<and> fst (checkOverlap no_faults conv_ex 10 ''2025-7-15'' 52200000 57600000 None
        (connect \<lparr>Users = [], Seats = [], Reservations =
           [\<lparr>id_r = 1, user_id = 1, seat_id = 10, reserved_date = 20284,
             start_time = 50400000, end_time = 54000000, status = reserved\<rparr>]\<rparr>))
     = Some True
   \<and> fst (checkOverlap no_faults conv_ex 10 ''2025-7-15'' 54000000 57600000 None
        (connect \<lparr>Users = [], Seats = [], Reservations =
           [\<lparr>id_r = 1, user_id = 1, seat_id = 10, reserved_date = 20284,
             start_time = 50400000, end_time = 54000000, status = reserved\<rparr>]\<rparr>))
     = Some False"
proof -
  have cv: "conv_ex ''2025-7-15'' = Some 20284" by (simp add: conv_ex_def)
  show ?thesis
    using cv checkOverlap_flags_iff [where conv = conv_ex and rd = "''2025-7-15''"
      and day = 20284 and seatId = 10 and ?s2.0 = 52200000
      and ?e2.0 = 57600000 and us = "[]" and ss = "[]" and i = 1 and u = 1
      and ?s1.0 = 50400000 and ?e1.0 = 54000000]
    by simp
qed

text \<open>
  Claim C3. For a body of the right types whose times parse and satisfy
  \<open>startTime < endTime\<close> and whose date the driver converts, and a driver that does not
  throw: POST looks for the user, then the seat, then an overlap on that seat and day, and
  at the first check that fails rolls back and answers 404 \<^verbatim>\<open>User not found\<close>, 404
  \<^verbatim>\<open>Seat not found\<close> or 409, the tables unchanged and no insert in the trace. Only when
  all three pass does it insert the row with status \<open>reserved\<close>, commit, and answer 201
  with that row.
\<close>

theorem router_post_check_order:
  assumes "toTime st = Some ps" and "toTime en = Some pe" and "ps < pe"
    and "conv rd = Some day"
  shows "router_post no_faults conv new_id d (JNumber u) (JNumber se) (JString rd)
           (JString st) (JString en)
     = (if \<not> (\<exists>x\<in>set (Users d). id_u x = u)
        then (Reply 404 (Err ''User not found''),
              \<lparr>committed = d, working = d, calls = 3,
               trace = [Done Begin, Done (Select_user u), Done Rollback]\<rparr>)
        else if \<not> (\<exists>x\<in>set (Seats d). id_s x = se)
        then (Reply 404 (Err ''Seat not found''),
              \<lparr>committed = d, working = d, calls = 4,
               trace = [Done Begin, Done (Select_user u), Done (Select_seat se),
                        Done Rollback]\<rparr>)
        else if (\<exists>r\<in>set (Reservations d). seat_id r = se \<and> reserved_date r = day
                   \<and> status r = reserved \<and> start_time r < pe \<and> ps < end_time r)
        then (Reply 409 (Err ''Seat already reserved during that time''),
              \<lparr>committed = d, working = d, calls = 5,
               trace = [Done Begin, Done (Select_user u), Done (Select_seat se),
                        Done (Select_overlap se rd ps pe None), Done Rollback]\<rparr>)
        else (Reply 201 (Msg_reservation ''Reservation created''
                \<lparr>id_r = new_id, user_id = u, seat_id = se, reserved_date = day,
                 start_time = ps, end_time = pe, status = reserved\<rparr>),
              \<lparr>committed = d\<lparr>Reservations := Reservations d @
                   [\<lparr>id_r = new_id, user_id = u, seat_id = se, reserved_date = day,
                     start_time = ps, end_time = pe, status = reserved\<rparr>]\<rparr>,
               working = d\<lparr>Reservations := Reservations d @
                   [\<lparr>id_r = new_id, user_id = u, seat_id = se, reserved_date = day,
                     start_time = ps, end_time = pe, status = reserved\<rparr>]\<rparr>,
               calls = 6,
               trace = [Done Begin, Done (Select_user u), Done (Select_seat se),
                        Done (Select_overlap se rd ps pe None),
                        Done (Insert_reservation u se rd ps pe), Done Commit]\<rparr>))"
proof -
  have rx: "timeRegex_test st" "timeRegex_test en"
    using assms toTime_Some_regex by blast+
  show ?thesis
    using assms rx
    unfolding router_post_def typed_fields_def post_try_def driver_defs no_faults_def
    by (auto simp: exists_conv overlap_where_def inserted_def insert_row_def)
qed

text \<open>
  On the tables without reservations, user 1 books seat 10 from 14:00 to 15:00: all three
  checks pass and the row is committed. With that row in place, a booking of 14:30 to
  15:30 that writes the same day as \<^verbatim>\<open>2025-7-15\<close> is answered 409.
\<close>

theorem router_post_check_order_witness:
  "toTime ''14:00'' = Some 50400000 \<and> toTime ''15:00'' = Some 54000000
   \<and> (50400000 :: int) < 54000000 \<and> conv_ex ''2025-07-15'' = Some 20284
   \<and> router_post no_faults conv_ex 1 db_0 (JNumber 1) (JNumber 10) (JString ''2025-07-15'')
        (JString ''14:00'') (JString ''15:00'')
      = (Reply 201 (Msg_reservation ''Reservation created'' booking_A),
         \<lparr>committed = db_A, working = db_A, calls = 6,
          trace = [Done Begin, Done (Select_user 1), Done (Select_seat 10),
                   Done (Select_overlap 10 ''2025-07-15'' 50400000 54000000 None),
                   Done (Insert_reservation 1 10 ''2025-07-15'' 50400000 54000000),
                   Done Commit]\<rparr>)
   \<and> toTime ''14:30'' = Some 52200000 \<and> toTime ''15:30'' = Some 55800000
   \<and> (52200000 :: int) < 55800000 \<and> conv_ex ''2025-7-15'' = Some 20284
   \<and> router_post no_faults conv_ex 2 db_A (JNumber 1) (JNumber 10) (JString ''2025-7-15'')
        (JString ''14:30'') (JString ''15:30'')
      = (Reply 409 (Err ''Seat already reserved during that time''),
         \<lparr>committed = db_A, working = db_A, calls = 5,
          trace = [Done Begin, Done (Select_user 1), Done (Select_seat 10),
                   Done (Select_overlap 10 ''2025-7-15'' 52200000 55800000 None),
                   Done Rollback]\<rparr>)"
proof -
  have lt: "(50400000 :: int) < 54000000" and lt': "(52200000 :: int) < 55800000"
    by simp_all
  have cv: "conv_ex ''2025-07-15'' = Some 20284" and cv': "conv_ex ''2025-7-15'' = Some 20284"
    by (simp_all add: conv_ex_def)
  show ?thesis
    using router_post_check_order [where conv = conv_ex and rd = "''2025-07-15''"
        and day = 20284 and new_id = 1 and d = db_0 and u = 1 and se = 10,
        OF toTime_examples(1) toTime_examples(2) lt cv]
      router_post_check_order [where conv = conv_ex and rd = "''2025-7-15''"
        and day = 20284 and new_id = 2 and d = db_A and u = 1 and se = 10,
        OF toTime_examples(3) toTime_examples(4) lt' cv']
      toTime_examples(1,2,3,4) cv cv'
    by (simp add: user1_def seat10_def booking_A_def db_0_def db_A_def)
qed

text \<open>
  Claim C4. Whatever calls of the driver throw, PUT with a well-typed body whose times
  parse ends in one of two ways: it answers 200 and the committed tables hold both
  changes (the old rows canceled and the new row appended), or it does not answer 200 and
  the committed tables are the old ones, the old reservation as it was. Whenever the
  insert ran, the trace begins with the transaction's \<open>Begin\<close>, the four checks, the
  update that cancels and then the insert, in this order. When the cancel ran and the
  request did not succeed, a rollback was attempted and nothing was committed. This is
  the first part, for a date that the driver converts; when the driver rejects the date
  the request never reaches the cancel, does not answer 200 and commits nothing.
\<close>

theorem router_put_all_or_nothing:
  assumes "toTime st = Some ps" and "toTime en = Some pe"
  shows "(\<forall>day. conv rd = Some day \<longrightarrow>
         (let out = router_put fails conv new_id d (Num n) (JNumber u) (JNumber se)
                     (JString rd) (JString st) (JString en);
              new = \<lparr>id_r = new_id, user_id = u, seat_id = se, reserved_date = day,
                     start_time = ps, end_time = pe, status = reserved\<rparr>;
              ok = Reply 200 (Msg_reservation ''Reservation updated'' new)
          in ((fst out = ok
               \<and> committed (snd out) = d\<lparr>Reservations :=
                    map (\<lambda>r. if id_r r = n then r\<lparr>status := canceled\<rparr> else r)
                      (Reservations d) @ [new]\<rparr>)
              \<or> (fst out \<noteq> ok \<and> committed (snd out) = d))
           \<and> (Done (Insert_reservation u se rd ps pe) \<in> set (trace (snd out)) \<longrightarrow>
                 take 7 (trace (snd out))
                 = [Done Begin, Done (Select_reservation n), Done (Select_user u),
                    Done (Select_seat se), Done (Select_overlap se rd ps pe (Some n)),
                    Done (Update_canceled n), Done (Insert_reservation u se rd ps pe)])
           \<and> (Done (Update_canceled n) \<in> set (trace (snd out)) \<and> fst out \<noteq> ok \<longrightarrow>
                 committed (snd out) = d
                 \<and> (Done Rollback \<in> set (trace (snd out))
                    \<or> Threw Rollback \<in> set (trace (snd out))))))
   \<and> (conv rd = None \<longrightarrow>
         (let out = router_put fails conv new_id d (Num n) (JNumber u) (JNumber se)
                     (JString rd) (JString st) (JString en)
          in committed (snd out) = d
             \<and> (\<forall>new. fst out \<noteq> Reply 200 (Msg_reservation ''Reservation updated'' new))
             \<and> Done (Update_canceled n) \<notin> set (trace (snd out))))"
proof (intro conjI allI impI)
  fix day
  assume cv: "conv rd = Some day"
  show "(let out = router_put fails conv new_id d (Num n) (JNumber u) (JNumber se)
                     (JString rd) (JString st) (JString en);
              new = \<lparr>id_r = new_id, user_id = u, seat_id = se, reserved_date = day,
                     start_time = ps, end_time = pe, status = reserved\<rparr>;
              ok = Reply 200 (Msg_reservation ''Reservation updated'' new)
          in ((fst out = ok
               \<and> committed (snd out) = d\<lparr>Reservations :=
                    map (\<lambda>r. if id_r r = n then r\<lparr>status := canceled\<rparr> else r)
                      (Reservations d) @ [new]\<rparr>)
              \<or> (fst out \<noteq> ok \<and> committed (snd out) = d))
           \<and> (Done (Insert_reservation u se rd ps pe) \<in> set (trace (snd out)) \<longrightarrow>
                 take 7 (trace (snd out))
                 = [Done Begin, Done (Select_reservation n), Done (Select_user u),
                    Done (Select_seat se), Done (Select_overlap se rd ps pe (Some n)),
                    Done (Update_canceled n), Done (Insert_reservation u se rd ps pe)])
           \<and> (Done (Update_canceled n) \<in> set (trace (snd out)) \<and> fst out \<noteq> ok \<longrightarrow>
                 committed (snd out) = d
                 \<and> (Done Rollback \<in> set (trace (snd out))
                    \<or> Threw Rollback \<in> set (trace (snd out)))))"
  proof -
      define T where "T = put_try fails conv new_id n u se rd ps pe (connect d)"
      define G where "G = guarded_catch fails ''Transaction error during reservation update:''
                            ''Failed to update reservation'' (snd T)"
      define out where "out = router_put fails conv new_id d (Num n) (JNumber u) (JNumber se)
                         (JString rd) (JString st) (JString en)"
      define new where "new = inserted new_id u se day ps pe"
      define ok where "ok = Reply 200 (Msg_reservation ''Reservation updated'' new)"
      define seven where "seven = [Done Begin, Done (Select_reservation n), Done (Select_user u),
                        Done (Select_seat se), Done (Select_overlap se rd ps pe (Some n)),
                        Done (Update_canceled n), Done (Insert_reservation u se rd ps pe)]"
      have both: "insert_row new (set_canceled n d)
                  = d\<lparr>Reservations :=
                        map (\<lambda>r. if id_r r = n then r\<lparr>status := canceled\<rparr> else r)
                          (Reservations d) @ [new]\<rparr>"
        by (simp add: insert_row_def set_canceled_def)
      have main:
        "((fst out = ok \<and> committed (snd out) = insert_row new (set_canceled n d))
           \<or> (fst out \<noteq> ok \<and> committed (snd out) = d))
         \<and> (Done (Insert_reservation u se rd ps pe) \<in> set (trace (snd out)) \<longrightarrow>
               take 7 (trace (snd out)) = seven)
         \<and> (Done (Update_canceled n) \<in> set (trace (snd out)) \<and> fst out \<noteq> ok \<longrightarrow>
               committed (snd out) = d
               \<and> (Done Rollback \<in> set (trace (snd out)) \<or> Threw Rollback \<in> set (trace (snd out))))"
      proof (cases "n = 0 \<or> ps \<ge> pe")
        case True
        then have "snd out = connect d \<and> fst out \<noteq> ok"
          unfolding out_def ok_def router_put_unfold [OF assms] by auto
        then show ?thesis by (simp add: connect_def)
      next
        case False
        then have o: "out = (case T of (Some r, s) \<Rightarrow> (r, s) | (None, s) \<Rightarrow> G)"
          unfolding out_def T_def G_def router_put_unfold [OF assms]
          by (simp split: prod.splits option.splits)
        have c: "(fst T = Some ok \<and> committed (snd T) = insert_row new (set_canceled n d))
                 \<or> (fst T \<noteq> Some ok \<and> committed (snd T) = d)"
          unfolding T_def ok_def new_def by (rule put_try_committed [where conv = conv and rd = rd, OF cv])
        have i: "Done (Insert_reservation u se rd ps pe) \<in> set (trace (snd T)) \<Longrightarrow>
                 take 7 (trace (snd T)) = seven"
          unfolding T_def seven_def by (rule put_try_insert_after_update)
        show ?thesis
        proof (cases "fst T")
          case None
          then have og: "out = G" using o by (cases T) simp
          have g1: "fst G = Reply 500 (Err ''Failed to update reservation'')"
            unfolding G_def by (rule guarded_catch_reply)
          have g2: "committed (snd G) = d"
            using c None unfolding G_def by (simp add: guarded_catch_committed)
          have g3: "trace (snd G) = trace (snd T) @ [Console_error ''Transaction error during reservation update:'', Done Rollback]
              \<or> trace (snd G) = trace (snd T) @ [Console_error ''Transaction error during reservation update:'', Threw Rollback, Console_error ''Rollback failed:'']"
            unfolding G_def by (rule guarded_catch_trace)
          have g4: "Done (Insert_reservation u se rd ps pe) \<in> set (trace (snd G)) \<Longrightarrow>
                    take 7 (trace (snd G)) = seven"
          proof -
            assume a: "Done (Insert_reservation u se rd ps pe) \<in> set (trace (snd G))"
            then have b: "Done (Insert_reservation u se rd ps pe) \<in> set (trace (snd T))"
              using g3 by auto
            then have t: "take 7 (trace (snd T)) = seven" by (rule i)
            then have "length (take 7 (trace (snd T))) = 7"
              by (simp add: seven_def)
            then have "length (trace (snd T)) \<ge> 7"
              by simp
            then show ?thesis using g3 t by auto
          qed
          show ?thesis unfolding og using g1 g2 g3 g4 by (auto simp: ok_def)
        next
          case (Some r)
          then have os: "out = (r, snd T)" using o by (cases T) simp
          have u: "Done (Update_canceled n) \<in> set (trace (snd T)) \<Longrightarrow> r \<noteq> ok \<Longrightarrow> False"
            using put_try_throws_after_update [where conv = conv and rd = rd and day = day and n = n and fails = fails and new_id = new_id and u = u and se = se and ps = ps and pe = pe and d = d, OF cv] Some
            unfolding T_def ok_def new_def by auto
          show ?thesis unfolding os using c i u Some by auto
        qed
      qed
    show ?thesis
      using main unfolding Let_def out_def [symmetric] both
      by (simp add: new_def inserted_def ok_def seven_def)
  qed
next
  assume cn: "conv rd = None"
  define T where "T = put_try fails conv new_id n u se rd ps pe (connect d)"
  define G where "G = guarded_catch fails ''Transaction error during reservation update:''
                        ''Failed to update reservation'' (snd T)"
  define out where "out = router_put fails conv new_id d (Num n) (JNumber u) (JNumber se)
                     (JString rd) (JString st) (JString en)"
  have t1: "committed (snd T) = d"
    and t3: "Done (Update_canceled n) \<notin> set (trace (snd T))"
    unfolding T_def
    using put_try_rejected_date [where conv = conv and rd = rd, OF cn] by blast+
  have t2: "\<And>new. fst T \<noteq> Some (Reply 200 (Msg_reservation ''Reservation updated'' new))"
    unfolding T_def
    using put_try_rejected_date [where conv = conv and rd = rd, OF cn] by blast
  have main: "committed (snd out) = d
             \<and> (\<forall>new. fst out \<noteq> Reply 200 (Msg_reservation ''Reservation updated'' new))
             \<and> Done (Update_canceled n) \<notin> set (trace (snd out))"
  proof (cases "n = 0 \<or> ps \<ge> pe")
    case True
    then have "snd out = connect d
               \<and> (\<forall>new. fst out \<noteq> Reply 200 (Msg_reservation ''Reservation updated'' new))"
      unfolding out_def router_put_unfold [OF assms] by auto
    then show ?thesis by (simp add: connect_def)
  next
    case False
    then have o: "out = (case T of (Some r, s) \<Rightarrow> (r, s) | (None, s) \<Rightarrow> G)"
      unfolding out_def T_def G_def router_put_unfold [OF assms]
      by (simp split: prod.splits option.splits)
    show ?thesis
    proof (cases "fst T")
      case None
      then have og: "out = G" using o by (cases T) simp
      have g1: "fst G = Reply 500 (Err ''Failed to update reservation'')"
        unfolding G_def by (rule guarded_catch_reply)
      have g2: "committed (snd G) = d"
        using t1 unfolding G_def by (simp add: guarded_catch_committed)
      have g3: "trace (snd G) = trace (snd T) @ [Console_error ''Transaction error during reservation update:'', Done Rollback]
          \<or> trace (snd G) = trace (snd T) @ [Console_error ''Transaction error during reservation update:'', Threw Rollback, Console_error ''Rollback failed:'']"
        unfolding G_def by (rule guarded_catch_trace)
      show ?thesis unfolding og using g1 g2 g3 t3 by auto
    next
      case (Some r)
      then have os: "out = (r, snd T)" using o by (cases T) simp
      show ?thesis unfolding os using t1 t2 t3 Some by auto
    qed
  qed
  show "(let out = router_put fails conv new_id d (Num n) (JNumber u) (JNumber se)
                     (JString rd) (JString st) (JString en)
          in committed (snd out) = d
             \<and> (\<forall>new. fst out \<noteq> Reply 200 (Msg_reservation ''Reservation updated'' new))
             \<and> Done (Update_canceled n) \<notin> set (trace (snd out)))"
    using main unfolding Let_def out_def [symmetric] by simp
qed

text \<open>
  The insert of a rebook throws (call 6), after the cancel ran: the caller gets the 500
  and the committed tables still hold the old reservation as \<open>reserved\<close>.
\<close>

theorem router_put_all_or_nothing_witness:
  "toTime ''16:00'' = Some 57600000 \<and> toTime ''17:00'' = Some 61200000
   \<and> conv_ex ''2025-07-15'' = Some 20284
   \<and> fst (router_put (\<lambda>k. k = 6) conv_ex 2 db_A (Num 1) (JNumber 1) (JNumber 10)
        (JString ''2025-07-15'') (JString ''16:00'') (JString ''17:00''))
      = Reply 500 (Err ''Failed to update reservation'')
   \<and> Done (Update_canceled 1) \<in> set (trace (snd (router_put (\<lambda>k. k = 6) conv_ex 2 db_A
        (Num 1) (JNumber 1) (JNumber 10) (JString ''2025-07-15'') (JString ''16:00'')
        (JString ''17:00''))))
   \<and> committed (snd (router_put (\<lambda>k. k = 6) conv_ex 2 db_A (Num 1) (JNumber 1) (JNumber 10)
        (JString ''2025-07-15'') (JString ''16:00'') (JString ''17:00''))) = db_A"
proof -
  have cv: "conv_ex ''2025-07-15'' = Some 20284" by (simp add: conv_ex_def)
  have f: "fst (router_put (\<lambda>k. k = 6) conv_ex 2 db_A (Num 1) (JNumber 1) (JNumber 10)
        (JString ''2025-07-15'') (JString ''16:00'') (JString ''17:00''))
      = Reply 500 (Err ''Failed to update reservation'')"
    and t: "Done (Update_canceled 1) \<in> set (trace (snd (router_put (\<lambda>k. k = 6) conv_ex 2
        db_A (Num 1) (JNumber 1) (JNumber 10) (JString ''2025-07-15'') (JString ''16:00'')
        (JString ''17:00''))))"
    unfolding router_put_unfold [OF toTime_examples(5) toTime_examples(6)]
      put_try_def guarded_catch_def driver_defs
    by (simp_all add: example_defs overlap_where_def)
  show ?thesis
    using router_put_all_or_nothing [OF toTime_examples(5) toTime_examples(6),
        where conv = conv_ex and rd = "''2025-07-15''" and fails = "\<lambda>k. k = 6"
        and new_id = 2 and d = db_A and n = 1 and u = 1 and se = 10]
      f t cv toTime_examples(5,6)
    by (simp add: Let_def)
qed

text \<open>
  Claim C5. For an id that passes the handler's own test (\<open>n \<noteq> 0\<close>) and a driver that
  does not throw, DELETE answers 404 \<^verbatim>\<open>Reservation not found or already canceled\<close> iff no
  row with that id has status \<open>reserved\<close> (a missing id and a canceled one alike), and then
  it rolls back with the tables unchanged; otherwise it answers 200 and the committed
  tables differ from the old ones exactly in the status of the rows with that id, now
  \<open>canceled\<close>. Without faults the handler always answers. Whatever the driver does, an id
  with no \<open>reserved\<close> row leaves the committed tables as they were.
\<close>

theorem router_delete_not_found_iff:
  "(n \<noteq> 0 \<longrightarrow>
      (fst (router_delete no_faults d (Num n))
         = Reply 404 (Err ''Reservation not found or already canceled''))
      = (\<not> (\<exists>r\<in>set (Reservations d). id_r r = n \<and> status r = reserved)))
   \<and> (n \<noteq> 0 \<and> \<not> (\<exists>r\<in>set (Reservations d). id_r r = n \<and> status r = reserved) \<longrightarrow>
        router_delete no_faults d (Num n)
          = (Reply 404 (Err ''Reservation not found or already canceled''),
             \<lparr>committed = d, working = d, calls = 3,
              trace = [Done Begin, Done (Select_reservation n), Done Rollback]\<rparr>))
   \<and> (n \<noteq> 0 \<and> (\<exists>r\<in>set (Reservations d). id_r r = n \<and> status r = reserved) \<longrightarrow>
        router_delete no_faults d (Num n)
          = (Reply 200 (Msg ''Reservation canceled''),
             \<lparr>committed = d\<lparr>Reservations :=
                  map (\<lambda>r. if id_r r = n then r\<lparr>status := canceled\<rparr> else r)
                    (Reservations d)\<rparr>,
              working = d\<lparr>Reservations :=
                  map (\<lambda>r. if id_r r = n then r\<lparr>status := canceled\<rparr> else r)
                    (Reservations d)\<rparr>,
              calls = 4,
              trace = [Done Begin, Done (Select_reservation n), Done (Update_canceled n),
                       Done Commit]\<rparr>))
   \<and> fst (router_delete no_faults d p) \<noteq> Unhandled
   \<and> (\<not> (\<exists>r\<in>set (Reservations d). id_r r = n \<and> status r = reserved) \<longrightarrow>
        committed (snd (router_delete fails d (Num n))) = d)"
  unfolding router_delete_def delete_try_def delete_catch_def driver_defs no_faults_def
  by (auto simp: exists_conv set_canceled_def split: jsnum.splits)

text \<open>
  Canceling reservation 1 where it is \<open>reserved\<close>, and where there is no such row.
\<close>

theorem router_delete_not_found_iff_witness:
  "(1 :: int) \<noteq> 0
   \<and> Reservations db_A = [booking_A] \<and> id_r booking_A = 1 \<and> status booking_A = reserved
   \<and> fst (router_delete no_faults db_A (Num 1)) = Reply 200 (Msg ''Reservation canceled'')
   \<and> committed (snd (router_delete no_faults db_A (Num 1)))
      = db_A\<lparr>Reservations := [booking_A\<lparr>status := canceled\<rparr>]\<rparr>
   \<and> Reservations db_0 = []
   \<and> fst (router_delete no_faults db_0 (Num 1))
      = Reply 404 (Err ''Reservation not found or already canceled'')
   \<and> committed (snd (router_delete no_faults db_0 (Num 1))) = db_0"
  using router_delete_not_found_iff [of 1 db_A "Num 1" no_faults]
    router_delete_not_found_iff [of 1 db_0 "Num 1" no_faults]
  by (simp add: user1_def seat10_def booking_A_def db_0_def db_A_def)

text \<open>
  Claim C6. PUT passes the id of the reservation it replaces as \<open>excludeId\<close>. When the
  driver converts the date, the reservation \<open>n\<close> is \<open>reserved\<close>, user and seat exist, and
  every \<open>reserved\<close> row of the requested seat and day that overlaps the new interval has
  id \<open>n\<close>, the overlap check answers false and (without faults) the rebook succeeds: 200,
  the old row canceled, the new one appended.
\<close>

theorem router_put_excludes_itself:
  assumes "toTime st = Some ps" and "toTime en = Some pe" and "ps < pe" and "n \<noteq> 0"
    and "conv rd = Some day"
    and "\<exists>r\<in>set (Reservations d). id_r r = n \<and> status r = reserved"
    and "\<exists>x\<in>set (Users d). id_u x = u"
    and "\<exists>x\<in>set (Seats d). id_s x = se"
    and "\<forall>r\<in>set (Reservations d).
           seat_id r = se \<and> reserved_date r = day \<and> status r = reserved
           \<and> start_time r < pe \<and> ps < end_time r \<longrightarrow> id_r r = n"
  shows "fst (checkOverlap no_faults conv se rd ps pe (Some n) (connect d)) = Some False
   \<and> router_put no_faults conv new_id d (Num n) (JNumber u) (JNumber se) (JString rd)
        (JString st) (JString en)
     = (Reply 200 (Msg_reservation ''Reservation updated''
          \<lparr>id_r = new_id, user_id = u, seat_id = se, reserved_date = day,
           start_time = ps, end_time = pe, status = reserved\<rparr>),
        \<lparr>committed = d\<lparr>Reservations :=
             map (\<lambda>r. if id_r r = n then r\<lparr>status := canceled\<rparr> else r) (Reservations d)
             @ [\<lparr>id_r = new_id, user_id = u, seat_id = se, reserved_date = day,
                 start_time = ps, end_time = pe, status = reserved\<rparr>]\<rparr>,
         working = d\<lparr>Reservations :=
             map (\<lambda>r. if id_r r = n then r\<lparr>status := canceled\<rparr> else r) (Reservations d)
             @ [\<lparr>id_r = new_id, user_id = u, seat_id = se, reserved_date = day,
                 start_time = ps, end_time = pe, status = reserved\<rparr>]\<rparr>,
         calls = 8,
         trace = [Done Begin, Done (Select_reservation n), Done (Select_user u),
                  Done (Select_seat se), Done (Select_overlap se rd ps pe (Some n)),
                  Done (Update_canceled n), Done (Insert_reservation u se rd ps pe),
                  Done Commit]\<rparr>)"
proof -
  have rx: "timeRegex_test st" "timeRegex_test en"
    using assms toTime_Some_regex by blast+
  have no: "\<forall>r\<in>set (Reservations d). \<not> overlap_where se day ps pe (Some n) r"
    using assms(9) by (auto simp: overlap_where_def)
  show ?thesis
    using assms(1-8) rx no
    unfolding router_put_def typed_fields_def put_try_def driver_defs no_faults_def
    by (simp add: exists_conv inserted_def insert_row_def set_canceled_def)
qed

text \<open>
  With reservations 1 (14:00 to 15:00) and 2 (16:00 to 17:00) of seat 10 on day 20284,
  reservation 1 is moved to 14:30 to 15:30, which overlaps only itself; the request
  writes the day as \<^verbatim>\<open>2025-7-15\<close>.
\<close>

theorem router_put_excludes_itself_witness:
  "toTime ''14:30'' = Some 52200000 \<and> toTime ''15:30'' = Some 55800000
   \<and> (52200000 :: int) < 55800000 \<and> (1 :: int) \<noteq> 0
   \<and> conv_ex ''2025-7-15'' = Some 20284
   \<and> Reservations db_AB = [booking_A, booking_B]
   \<and> start_time booking_A < 55800000 \<and> 52200000 < end_time booking_A
   \<and> \<not> start_time booking_B < 55800000
   \<and> fst (router_put no_faults conv_ex 3 db_AB (Num 1) (JNumber 1) (JNumber 10)
        (JString ''2025-7-15'') (JString ''14:30'') (JString ''15:30''))
      = Reply 200 (Msg_reservation ''Reservation updated''
          \<lparr>id_r = 3, user_id = 1, seat_id = 10, reserved_date = 20284,
           start_time = 52200000, end_time = 55800000, status = reserved\<rparr>)
   \<and> Reservations (committed (snd (router_put no_faults conv_ex 3 db_AB (Num 1) (JNumber 1)
        (JNumber 10) (JString ''2025-7-15'') (JString ''14:30'') (JString ''15:30''))))
      = [booking_A\<lparr>status := canceled\<rparr>, booking_B,
         \<lparr>id_r = 3, user_id = 1, seat_id = 10, reserved_date = 20284,
          start_time = 52200000, end_time = 55800000, status = reserved\<rparr>]"
proof -
  have lt: "(52200000 :: int) < 55800000" and nz: "(1 :: int) \<noteq> 0" by simp_all
  have cv: "conv_ex ''2025-7-15'' = Some 20284" by (simp add: conv_ex_def)
  have r: "\<exists>r\<in>set (Reservations db_AB). id_r r = 1 \<and> status r = reserved"
    and u: "\<exists>x\<in>set (Users db_AB). id_u x = 1"
    and s: "\<exists>x\<in>set (Seats db_AB). id_s x = 10"
    and only: "\<forall>r\<in>set (Reservations db_AB).
           seat_id r = 10 \<and> reserved_date r = 20284 \<and> status r = reserved
           \<and> start_time r < 55800000 \<and> 52200000 < end_time r \<longrightarrow> id_r r = 1"
    by (simp_all add: user1_def seat10_def booking_A_def booking_B_def db_AB_def)
  show ?thesis
    using router_put_excludes_itself [where conv = conv_ex and rd = "''2025-7-15''"
        and day = 20284 and d = db_AB and n = 1 and u = 1 and se = 10 and new_id = 3,
        OF toTime_examples(3) toTime_examples(4) lt nz cv r u s only]
      toTime_examples(3,4) cv
    by (simp add: user1_def seat10_def booking_A_def booking_B_def db_AB_def)
qed

text \<open>
  Claim C7, as amended. When the texts of the date filters that are applied convert, and
  without faults, GET answers 200 with rows such that: every row satisfies each filter
  whose value is truthy (a number other than 0 for \<open>userId\<close> and \<open>seatId\<close>, a non-empty
  string for \<open>fromDate\<close>, \<open>toDate\<close> and \<open>status\<close>), the dates compared as days after the
  server's conversion and the status under the collation; and every reservation that
  joins a user and a seat and satisfies those filters is among the rows. A filter that
  is missing, or whose value is 0, \<open>NaN\<close> or the empty string, adds no condition.
\<close>

theorem router_get_filters:
  assumes "\<not> conversion_fails cast fromDate" and "\<not> conversion_fails cast toDate"
  shows "\<exists>rows. router_get no_faults cast same d userId fromDate toDate seatId status_q order_q
            = Reply 200 (Rows rows)
     \<and> (\<forall>x\<in>set rows.
           (\<forall>n. userId = Some (Num n) \<and> n \<noteq> 0 \<longrightarrow> user_id_f x = n)
         \<and> (\<forall>f day. fromDate = Some f \<and> f \<noteq> [] \<and> cast f = Some day
                \<longrightarrow> day \<le> reserved_date_f x)
         \<and> (\<forall>t day. toDate = Some t \<and> t \<noteq> [] \<and> cast t = Some day
                \<longrightarrow> reserved_date_f x \<le> day)
         \<and> (\<forall>n. seatId = Some (Num n) \<and> n \<noteq> 0 \<longrightarrow> seat_id_f x = n)
         \<and> (\<forall>st. status_q = Some st \<and> st \<noteq> [] \<longrightarrow> same (status_text (status_f x)) st))
     \<and> (\<forall>r\<in>set (Reservations d). \<forall>u\<in>set (Users d). \<forall>s\<in>set (Seats d).
           user_id r = id_u u \<and> seat_id r = id_s s
         \<and> (\<forall>n. userId = Some (Num n) \<and> n \<noteq> 0 \<longrightarrow> user_id r = n)
         \<and> (\<forall>f day. fromDate = Some f \<and> f \<noteq> [] \<and> cast f = Some day
                \<longrightarrow> day \<le> reserved_date r)
         \<and> (\<forall>t day. toDate = Some t \<and> t \<noteq> [] \<and> cast t = Some day
                \<longrightarrow> reserved_date r \<le> day)
         \<and> (\<forall>n. seatId = Some (Num n) \<and> n \<noteq> 0 \<longrightarrow> seat_id r = n)
         \<and> (\<forall>st. status_q = Some st \<and> st \<noteq> [] \<longrightarrow> same (status_text (status r)) st)
         \<longrightarrow> format_row (r, u, s) \<in> set rows)"
proof -
  define rows where "rows = map format_row (order_by order_q
      (filter (\<lambda>x. list_where cast same userId fromDate toDate seatId status_q (fst x))
         (joined d)))"
  have eq: "router_get no_faults cast same d userId fromDate toDate seatId status_q order_q
            = Reply 200 (Rows rows)"
    using assms by (simp add: router_get_def no_faults_def rows_def)
  have mem: "set rows = format_row `
      {x \<in> set (joined d). list_where cast same userId fromDate toDate seatId status_q (fst x)}"
    by (simp add: rows_def set_order_by)
  have lw: "\<And>r. list_where cast same userId fromDate toDate seatId status_q r =
      ((\<forall>n. userId = Some (Num n) \<and> n \<noteq> 0 \<longrightarrow> user_id r = n)
         \<and> (\<forall>f day. fromDate = Some f \<and> f \<noteq> [] \<and> cast f = Some day
                \<longrightarrow> day \<le> reserved_date r)
         \<and> (\<forall>t day. toDate = Some t \<and> t \<noteq> [] \<and> cast t = Some day
                \<longrightarrow> reserved_date r \<le> day)
         \<and> (\<forall>n. seatId = Some (Num n) \<and> n \<noteq> 0 \<longrightarrow> seat_id r = n)
         \<and> (\<forall>st. status_q = Some st \<and> st \<noteq> [] \<longrightarrow> same (status_text (status r)) st))"
    unfolding list_where_def
    by (simp only: where_id_iff where_fromDate_iff [OF assms(1)]
        where_toDate_iff [OF assms(2)] where_status_iff)
  have sound: "\<forall>x\<in>set rows.
           (\<forall>n. userId = Some (Num n) \<and> n \<noteq> 0 \<longrightarrow> user_id_f x = n)
         \<and> (\<forall>f day. fromDate = Some f \<and> f \<noteq> [] \<and> cast f = Some day
                \<longrightarrow> day \<le> reserved_date_f x)
         \<and> (\<forall>t day. toDate = Some t \<and> t \<noteq> [] \<and> cast t = Some day
                \<longrightarrow> reserved_date_f x \<le> day)
         \<and> (\<forall>n. seatId = Some (Num n) \<and> n \<noteq> 0 \<longrightarrow> seat_id_f x = n)
         \<and> (\<forall>st. status_q = Some st \<and> st \<noteq> [] \<longrightarrow> same (status_text (status_f x)) st)"
  proof
    fix x assume "x \<in> set rows"
    then obtain r u s where x: "x = format_row (r, u, s)"
      and w: "list_where cast same userId fromDate toDate seatId status_q r"
      unfolding mem by auto
    show "(\<forall>n. userId = Some (Num n) \<and> n \<noteq> 0 \<longrightarrow> user_id_f x = n)
         \<and> (\<forall>f day. fromDate = Some f \<and> f \<noteq> [] \<and> cast f = Some day
                \<longrightarrow> day \<le> reserved_date_f x)
         \<and> (\<forall>t day. toDate = Some t \<and> t \<noteq> [] \<and> cast t = Some day
                \<longrightarrow> reserved_date_f x \<le> day)
         \<and> (\<forall>n. seatId = Some (Num n) \<and> n \<noteq> 0 \<longrightarrow> seat_id_f x = n)
         \<and> (\<forall>st. status_q = Some st \<and> st \<noteq> [] \<longrightarrow> same (status_text (status_f x)) st)"
    proof -
      have f: "user_id_f x = user_id r" "reserved_date_f x = reserved_date r"
        "seat_id_f x = seat_id r" "status_f x = status r"
        unfolding x by (simp_all add: format_row_def)
      show ?thesis unfolding f using w unfolding lw .
    qed
  qed
  have complete: "\<forall>r\<in>set (Reservations d). \<forall>u\<in>set (Users d). \<forall>s\<in>set (Seats d).
           user_id r = id_u u \<and> seat_id r = id_s s
         \<and> (\<forall>n. userId = Some (Num n) \<and> n \<noteq> 0 \<longrightarrow> user_id r = n)
         \<and> (\<forall>f day. fromDate = Some f \<and> f \<noteq> [] \<and> cast f = Some day
                \<longrightarrow> day \<le> reserved_date r)
         \<and> (\<forall>t day. toDate = Some t \<and> t \<noteq> [] \<and> cast t = Some day
                \<longrightarrow> reserved_date r \<le> day)
         \<and> (\<forall>n. seatId = Some (Num n) \<and> n \<noteq> 0 \<longrightarrow> seat_id r = n)
         \<and> (\<forall>st. status_q = Some st \<and> st \<noteq> [] \<longrightarrow> same (status_text (status r)) st)
         \<longrightarrow> format_row (r, u, s) \<in> set rows"
  proof (intro ballI impI)
    fix r u s
    assume m: "r \<in> set (Reservations d)" "u \<in> set (Users d)" "s \<in> set (Seats d)"
      and h: "user_id r = id_u u \<and> seat_id r = id_s s
         \<and> (\<forall>n. userId = Some (Num n) \<and> n \<noteq> 0 \<longrightarrow> user_id r = n)
         \<and> (\<forall>f day. fromDate = Some f \<and> f \<noteq> [] \<and> cast f = Some day
                \<longrightarrow> day \<le> reserved_date r)
         \<and> (\<forall>t day. toDate = Some t \<and> t \<noteq> [] \<and> cast t = Some day
                \<longrightarrow> reserved_date r \<le> day)
         \<and> (\<forall>n. seatId = Some (Num n) \<and> n \<noteq> 0 \<longrightarrow> seat_id r = n)
         \<and> (\<forall>st. status_q = Some st \<and> st \<noteq> [] \<longrightarrow> same (status_text (status r)) st)"
    have j: "(r, u, s) \<in> set (joined d)" using m h by (simp add: set_joined)
    have w: "list_where cast same userId fromDate toDate seatId status_q r"
      unfolding lw using h by blast
    show "format_row (r, u, s) \<in> set rows"
      unfolding mem using j w by force
  qed
  show ?thesis using eq sound complete by blast
qed

text \<open>
  All five filters at once select reservation 1, with \<open>fromDate\<close> written \<^verbatim>\<open>20250701\<close>;
  \<open>fromDate\<close> one day after the reservation selects nothing.
\<close>

theorem router_get_filters_witness:
  "\<not> conversion_fails cast_ex (Some ''20250701'')
   \<and> \<not> conversion_fails cast_ex (Some ''2025-07-31'')
   \<and> router_get no_faults cast_ex same_ex db_A (Some (Num 1)) (Some ''20250701'')
        (Some ''2025-07-31'') (Some (Num 10)) (Some ''reserved'') (Some ''true'')
      = Reply 200 (Rows [format_row (booking_A, user1, seat10)])
   \<and> \<not> conversion_fails cast_ex (Some ''2025-07-16'') \<and> \<not> conversion_fails cast_ex None
   \<and> router_get no_faults cast_ex same_ex db_A (Some (Num 1)) (Some ''2025-07-16'') None
        None None None
      = Reply 200 (Rows [])"
proof -
  have c1: "\<not> conversion_fails cast_ex (Some ''20250701'')"
    and c2: "\<not> conversion_fails cast_ex (Some ''2025-07-31'')"
    and c3: "\<not> conversion_fails cast_ex (Some ''2025-07-16'')"
    and c4: "\<not> conversion_fails cast_ex None"
    by (simp_all add: cast_ex_def)
  show ?thesis
    using router_get_filters [OF c1 c2, of same_ex db_A "Some (Num 1)" "Some (Num 10)"
        "Some ''reserved''" "Some ''true''"]
      router_get_filters [OF c3 c4, of same_ex db_A "Some (Num 1)" None None None]
      c1 c2 c3 c4
    by (simp add: router_get_def no_faults_def joined_def order_by_def list_where_def
        example_defs)
qed

text \<open>
  The claim as stated fails for a filter that is supplied with the value 0:
  \<^verbatim>\<open>?userId=0\<close> gives \<^verbatim>\<open>Number("0")\<close>, which \<^verbatim>\<open>if (userId)\<close> skips, and the answer
  holds a row of user 1.
\<close>

theorem router_get_zero_id_counterexample:
  "router_get no_faults cast_ex same_ex db_A (Some (Num 0)) None None None None None
   = Reply 200 (Rows [\<lparr>reservation_id = 1, user_id_f = 1, first_name_f = ''Taro'',
        last_name_f = ''Tanaka'', seat_id_f = 10, seat_name_f = ''B-3'',
        reserved_date_f = 20284, start_time_f = 50400000,
        end_time_f = 54000000, status_f = reserved\<rparr>])"
  by (simp add: router_get_def no_faults_def joined_def order_by_def list_where_def
      format_row_def example_defs)

text \<open>
  Claim C8 fails for DELETE. Its \<^verbatim>\<open>catch\<close> block awaits \<^verbatim>\<open>transaction.rollback()\<close> with no
  \<^verbatim>\<open>try\<close> around it. When the select throws (call 1) and the rollback throws too
  (call 2), the handler's promise rejects: the 500 \<^verbatim>\<open>Failed to cancel reservation\<close> is
  never sent and the rollback's failure is not logged. POST, under the same faults, logs
  it and answers 500 (\<open>router_post_guarded_rollback\<close>).
\<close>

theorem router_delete_unguarded_rollback:
  "router_delete (\<lambda>k. k = 1 \<or> k = 2) db_A (Num 1)
   = (Unhandled,
      \<lparr>committed = db_A, working = db_A, calls = 3,
       trace = [Done Begin, Threw (Select_reservation 1), Console_error ''Delete error:'',
                Threw Rollback]\<rparr>)"
  unfolding router_delete_def delete_try_def delete_catch_def driver_defs
  by simp

text \<open>
  Claim C9. If every reservation starts before it ends, the same holds after any sequence
  of Create, Cancel and Rebook requests, whatever the bodies, ids, driver faults and
  conversion of dates; in particular from the empty table. A request whose times parse
  with \<open>startTime \<ge> endTime\<close> is answered 400 by POST and by PUT with no call made: no
  transaction begins.
\<close>

theorem start_before_end_invariant:
  "((\<forall>r\<in>set (Reservations d). start_time r < end_time r) \<longrightarrow>
      (\<forall>r\<in>set (Reservations (run conv d reqs)). start_time r < end_time r))
   \<and> (toTime st = Some ps \<and> toTime en = Some pe \<and> ps \<ge> pe \<longrightarrow>
        router_post fails conv new_id d (JNumber u) (JNumber se) (JString rd) (JString st)
          (JString en)
        = (Reply 400 (Err ''startTime must be earlier than endTime''),
           \<lparr>committed = d, working = d, calls = 0, trace = []\<rparr>)
      \<and> (n \<noteq> 0 \<longrightarrow>
           router_put fails conv new_id d (Num n) (JNumber u) (JNumber se) (JString rd)
             (JString st) (JString en)
           = (Reply 400 (Err ''startTime must be earlier than endTime''),
              \<lparr>committed = d, working = d, calls = 0, trace = []\<rparr>)))"
proof -
  have inv: "(\<forall>r\<in>set (Reservations d). start_time r < end_time r) \<longrightarrow>
      (\<forall>r\<in>set (Reservations (run conv d reqs)). start_time r < end_time r)"
    using run_start_before_end by blast
  have rej: "toTime st = Some ps \<and> toTime en = Some pe \<and> ps \<ge> pe \<longrightarrow>
        router_post fails conv new_id d (JNumber u) (JNumber se) (JString rd) (JString st)
          (JString en)
        = (Reply 400 (Err ''startTime must be earlier than endTime''),
           \<lparr>committed = d, working = d, calls = 0, trace = []\<rparr>)
      \<and> (n \<noteq> 0 \<longrightarrow>
           router_put fails conv new_id d (Num n) (JNumber u) (JNumber se) (JString rd)
             (JString st) (JString en)
           = (Reply 400 (Err ''startTime must be earlier than endTime''),
              \<lparr>committed = d, working = d, calls = 0, trace = []\<rparr>))"
  proof (intro impI, elim conjE)
    assume t: "toTime st = Some ps" "toTime en = Some pe" and ge: "pe \<le> ps"
    have rx: "timeRegex_test st" "timeRegex_test en"
      using t toTime_Some_regex by blast+
    show "router_post fails conv new_id d (JNumber u) (JNumber se) (JString rd) (JString st)
          (JString en)
        = (Reply 400 (Err ''startTime must be earlier than endTime''),
           \<lparr>committed = d, working = d, calls = 0, trace = []\<rparr>)
      \<and> (n \<noteq> 0 \<longrightarrow>
           router_put fails conv new_id d (Num n) (JNumber u) (JNumber se) (JString rd)
             (JString st) (JString en)
           = (Reply 400 (Err ''startTime must be earlier than endTime''),
              \<lparr>committed = d, working = d, calls = 0, trace = []\<rparr>))"
      using t ge rx
      by (simp add: router_post_def router_put_def typed_fields_def connect_def)
  qed
  show ?thesis using inv rej by blast
qed

text \<open>
  From reservation 1: a booking of 15:00 to 16:00 is committed, one of 17:00 to 16:00 is
  rejected, reservation 1 is canceled.
\<close>

theorem start_before_end_invariant_witness:
  "list_all (\<lambda>r. start_time r < end_time r) (Reservations db_A)
   \<and> Reservations (run conv_ex db_A
        [(no_faults, 2, Create (JNumber 1) (JNumber 10) (JString ''2025-07-15'')
                          (JString ''15:00'') (JString ''16:00'')),
         (no_faults, 3, Create (JNumber 1) (JNumber 10) (JString ''2025-07-15'')
                          (JString ''17:00'') (JString ''16:00'')),
         (no_faults, 4, Cancel (Num 1))])
      = [booking_A\<lparr>status := canceled\<rparr>,
         \<lparr>id_r = 2, user_id = 1, seat_id = 10, reserved_date = 20284,
          start_time = 54000000, end_time = 57600000, status = reserved\<rparr>]
   \<and> list_all (\<lambda>r. start_time r < end_time r) (Reservations (run conv_ex db_A
        [(no_faults, 2, Create (JNumber 1) (JNumber 10) (JString ''2025-07-15'')
                          (JString ''15:00'') (JString ''16:00'')),
         (no_faults, 3, Create (JNumber 1) (JNumber 10) (JString ''2025-07-15'')
                          (JString ''17:00'') (JString ''16:00'')),
         (no_faults, 4, Cancel (Num 1))]))
   \<and> toTime ''17:00'' = Some 61200000 \<and> toTime ''16:00'' = Some 57600000
   \<and> (61200000 :: int) \<ge> 57600000
   \<and> fst (router_post no_faults conv_ex 3 db_A (JNumber 1) (JNumber 10)
          (JString ''2025-07-15'') (JString ''17:00'') (JString ''16:00''))
      = Reply 400 (Err ''startTime must be earlier than endTime'')"
proof -
  have r: "Reservations (run conv_ex db_A
        [(no_faults, 2, Create (JNumber 1) (JNumber 10) (JString ''2025-07-15'')
                          (JString ''15:00'') (JString ''16:00'')),
         (no_faults, 3, Create (JNumber 1) (JNumber 10) (JString ''2025-07-15'')
                          (JString ''17:00'') (JString ''16:00'')),
         (no_faults, 4, Cancel (Num 1))])
      = [booking_A\<lparr>status := canceled\<rparr>,
         \<lparr>id_r = 2, user_id = 1, seat_id = 10, reserved_date = 20284,
          start_time = 54000000, end_time = 57600000, status = reserved\<rparr>]"
    using toTime_examples
    unfolding run.simps serve.simps router_post_def router_delete_def typed_fields_def
      post_try_def delete_try_def driver_defs no_faults_def
    by (simp add: is_digit_def overlap_where_def example_defs inserted_def insert_row_def
        set_canceled_def)
  have a: "list_all (\<lambda>r. start_time r < end_time r) (Reservations db_A)"
    by (simp add: example_defs)
  show ?thesis
    using start_before_end_invariant [of db_A conv_ex
        "[(no_faults, 2, Create (JNumber 1) (JNumber 10) (JString ''2025-07-15'')
                          (JString ''15:00'') (JString ''16:00'')),
         (no_faults, 3, Create (JNumber 1) (JNumber 10) (JString ''2025-07-15'')
                          (JString ''17:00'') (JString ''16:00'')),
         (no_faults, 4, Cancel (Num 1))]"
        "''17:00''" 61200000 "''16:00''" 57600000 no_faults 3 1 10 "''2025-07-15''" 1]
      r a toTime_examples(5,6)
    by (simp add: list_all_iff)
qed

text \<open>
  Claim C10. A path id whose number is \<open>NaN\<close> or \<open>0\<close> is answered with 400
  \<^verbatim>\<open>Reservation ID required\<close>, whatever the driver would do: no call is made (the trace
  is empty, no transaction begins), and the tables are as before.
\<close>

theorem router_delete_rejects_zero_and_NaN:
  "router_delete fails d NaN
     = (Reply 400 (Err ''Reservation ID required''),
        \<lparr>committed = d, working = d, calls = 0, trace = []\<rparr>)
   \<and> router_delete fails d (Num 0)
     = (Reply 400 (Err ''Reservation ID required''),
        \<lparr>committed = d, working = d, calls = 0, trace = []\<rparr>)"
  by (simp add: router_delete_def connect_def)

end
